theory Spec2Isabelle
  imports Complex_Main "HOL-Library.Product_Lexorder"
begin

section \<open>Numeric values\<close>

text \<open>
  The dashboard computes with pandas columns of dtype float64. The embedding keeps the
  special values of that type and idealises the finite ones as real numbers: a cell is
  a finite real, plus or minus infinity, or NaN (pandas' marker of a missing value).
  Rounding error, overflow and the sign of zero are not modelled. Arithmetic on the
  special values follows IEEE 754 as numpy implements it: a division by zero raises
  nothing, it yields an infinity or NaN.
\<close>

datatype fval = Fin real | PosInf | NegInf | NaN

fun fneg :: "fval \<Rightarrow> fval" where
  "fneg (Fin a) = Fin (- a)"
| "fneg PosInf = NegInf"
| "fneg NegInf = PosInf"
| "fneg NaN = NaN"

fun fadd :: "fval \<Rightarrow> fval \<Rightarrow> fval" where
  "fadd NaN _ = NaN"
| "fadd _ NaN = NaN"
| "fadd (Fin a) (Fin b) = Fin (a + b)"
| "fadd PosInf NegInf = NaN"
| "fadd NegInf PosInf = NaN"
| "fadd PosInf _ = PosInf"
| "fadd NegInf _ = NegInf"
| "fadd (Fin a) b = b"

definition fsub :: "fval \<Rightarrow> fval \<Rightarrow> fval" where
  "fsub a b = fadd a (fneg b)"

text \<open>The infinity with the sign of a real number; NaN for zero.\<close>

definition signed_inf :: "real \<Rightarrow> fval" where
  "signed_inf s = (if 0 < s then PosInf else if s < 0 then NegInf else NaN)"

fun fmul :: "fval \<Rightarrow> fval \<Rightarrow> fval" where
  "fmul NaN _ = NaN"
| "fmul _ NaN = NaN"
| "fmul (Fin a) (Fin b) = Fin (a * b)"
| "fmul (Fin a) PosInf = signed_inf a"
| "fmul (Fin a) NegInf = signed_inf (- a)"
| "fmul PosInf (Fin b) = signed_inf b"
| "fmul NegInf (Fin b) = signed_inf (- b)"
| "fmul PosInf PosInf = PosInf"
| "fmul NegInf NegInf = PosInf"
| "fmul PosInf NegInf = NegInf"
| "fmul NegInf PosInf = NegInf"

text \<open>
  Division: a finite value over zero is an infinity of the sign of the dividend, zero
  over zero is NaN. The zero of the model is the positive zero.
\<close>

fun fdiv :: "fval \<Rightarrow> fval \<Rightarrow> fval" where
  "fdiv NaN _ = NaN"
| "fdiv _ NaN = NaN"
| "fdiv (Fin a) (Fin b) = (if b = 0 then signed_inf a else Fin (a / b))"
| "fdiv (Fin a) _ = Fin 0"
| "fdiv PosInf (Fin b) = (if 0 \<le> b then PosInf else NegInf)"
| "fdiv NegInf (Fin b) = (if 0 \<le> b then NegInf else PosInf)"
| "fdiv _ _ = NaN"

text \<open>The comparisons \<^verbatim>\<open>value > 0\<close> and \<^verbatim>\<open>value < 0\<close>; both are false on NaN.\<close>

fun fpos :: "fval \<Rightarrow> bool" where
  "fpos (Fin a) = (0 < a)"
| "fpos PosInf = True"
| "fpos _ = False"

fun fnegative :: "fval \<Rightarrow> bool" where
  "fnegative (Fin a) = (a < 0)"
| "fnegative NegInf = True"
| "fnegative _ = False"

text \<open>\<^verbatim>\<open>pd.notna\<close>: only NaN is missing; an infinity is not.\<close>

definition notna :: "fval \<Rightarrow> bool" where
  "notna v = (v \<noteq> NaN)"

subsection \<open>Rounding to two decimals\<close>

text \<open>
  \<^verbatim>\<open>DataFrame.round(2)\<close> and \<^verbatim>\<open>Series.round(2)\<close> apply numpy's rounding to every float
  cell: the value is scaled by 100, rounded to the nearest integer with ties going to
  the even one, and scaled back. NaN and the infinities are left as they are.
\<close>

definition rint :: "real \<Rightarrow> int" where
  "rint x =
     (let f = \<lfloor>x\<rfloor>; d = x - of_int f
      in if d < 1 / 2 then f
         else if 1 / 2 < d then f + 1
         else if even f then f else f + 1)"

definition round2_real :: "real \<Rightarrow> real" where
  "round2_real x = of_int (rint (x * 100)) / 100"

fun round2 :: "fval \<Rightarrow> fval" where
  "round2 (Fin a) = Fin (round2_real a)"
| "round2 v = v"

text \<open>
  A cell has at most two decimal digits when a hundred times its value is an integer.
  NaN and the infinities are not numbers with digits; the predicate lets them pass.
\<close>

fun two_decimals :: "fval \<Rightarrow> bool" where
  "two_decimals (Fin a) = (a * 100 \<in> \<int>)"
| "two_decimals _ = True"

text \<open>A cell that holds a number: neither NaN nor an infinity.\<close>

fun is_finite :: "fval \<Rightarrow> bool" where
  "is_finite (Fin a) = True"
| "is_finite _ = False"

subsection \<open>The aggregation functions of pandas\<close>

text \<open>
  The prices of a group are a list of finite reals (the data model's invariant: every
  observation has a finite price). \<^verbatim>\<open>mean\<close>, \<^verbatim>\<open>median\<close>, \<^verbatim>\<open>min\<close> and \<^verbatim>\<open>max\<close> of an empty
  group are NaN; \<^verbatim>\<open>std\<close> is the sample standard deviation (one degree of freedom
  removed), NaN for fewer than two values.
\<close>

definition agg_count :: "real list \<Rightarrow> nat" where
  "agg_count xs = length xs"

definition agg_mean :: "real list \<Rightarrow> fval" where
  "agg_mean xs = (if xs = [] then NaN else Fin (sum_list xs / real (length xs)))"

definition agg_std :: "real list \<Rightarrow> fval" where
  "agg_std xs =
     (if length xs < 2 then NaN
      else let m = sum_list xs / real (length xs)
           in Fin (sqrt (sum_list (map (\<lambda>x. (x - m)\<^sup>2) xs) / real (length xs - 1))))"

definition agg_min :: "real list \<Rightarrow> fval" where
  "agg_min xs = (case xs of [] \<Rightarrow> NaN | x # rest \<Rightarrow> Fin (fold min rest x))"

definition agg_max :: "real list \<Rightarrow> fval" where
  "agg_max xs = (case xs of [] \<Rightarrow> NaN | x # rest \<Rightarrow> Fin (fold max rest x))"

definition agg_median :: "real list \<Rightarrow> fval" where
  "agg_median xs =
     (let s = sort xs; n = length xs
      in if n = 0 then NaN
         else if odd n then Fin (s ! (n div 2))
         else Fin ((s ! (n div 2 - 1) + s ! (n div 2)) / 2))"

section \<open>The loaded dataset\<close>

text \<open>
  \<^verbatim>\<open>load_data\<close> reads the CSV file into a pandas DataFrame and derives the calendar
  columns from \<^verbatim>\<open>Date\<close>. A row of the embedding carries the columns the callbacks read;
  \<^verbatim>\<open>MonthName\<close> and \<^verbatim>\<open>MonthDay\<close>, which no chart reads, are left out. The
  dataset is a parameter of the embedding: every theorem holds for any list of such rows.
\<close>

record date =
  d_year :: int
  d_month :: nat
  d_day :: nat

record row =
  Date :: date
  Price :: real
  Year :: int
  Month :: nat
  Day :: nat
  DayOfYear :: nat
  WeekOfYear :: nat

text \<open>
  A frame is the list of its rows, in index order, and the column \<^verbatim>\<open>Quarter\<close>, which
  the loaded dataset does not have: \<^verbatim>\<open>create_quarterly_chart\<close> adds it to the frame
  it is given. \<open>None\<close> is a frame without that column.
\<close>

record frame =
  frame_rows :: "row list"
  Quarter :: "nat list option"

text \<open>Boolean-mask indexing \<^verbatim>\<open>df[mask]\<close> keeps the rows of the mask, with all columns.\<close>

definition select_rows :: "(row \<Rightarrow> bool) \<Rightarrow> frame \<Rightarrow> frame" where
  "select_rows P df =
     \<lparr>frame_rows = filter P (frame_rows df),
      Quarter = map_option (\<lambda>qs. map snd (filter (\<lambda>(r, q). P r) (zip (frame_rows df) qs)))
                  (Quarter df)\<rparr>"

text \<open>\<^verbatim>\<open>.copy()\<close> is a new object with the same contents.\<close>

definition copy :: "frame \<Rightarrow> frame" where
  "copy df = df"

text \<open>\<^verbatim>\<open>sorted(column.unique())\<close>: the distinct values in ascending order.\<close>

definition sorted_unique :: "'a::linorder list \<Rightarrow> 'a list" where
  "sorted_unique xs = sort (remdups xs)"

text \<open>
  \<^verbatim>\<open>groupby(keys)\<close>: one group per distinct key, the groups in ascending order of the
  key (pairs lexicographically), each group holding its rows in index order.
\<close>

definition groupby :: "('r \<Rightarrow> 'k::linorder) \<Rightarrow> 'r list \<Rightarrow> ('k \<times> 'r list) list" where
  "groupby key rs = map (\<lambda>k. (k, filter (\<lambda>r. key r = k) rs)) (sorted_unique (map key rs))"

text \<open>\<^verbatim>\<open>Date.dt.quarter\<close>.\<close>

definition quarter :: "date \<Rightarrow> nat" where
  "quarter d = (d_month d - 1) div 3 + 1"

section \<open>Figures and tables\<close>

text \<open>
  A plotly figure is its list of traces, its annotations and its title. A trace keeps
  the attributes that carry data or identify the series (kind, x, y, name, mode, line
  colour, error bars, fill, fill colour, marker colour, axis). Widths, marker sizes, hover
  templates, legend and axis settings are presentation only and are left out. A trace's
  name is kept in the form the source builds it: \<^verbatim>\<open>str(year)\<close>, \<^verbatim>\<open>f'{year} Avg'\<close>,
  \<^verbatim>\<open>f'{year} Range'\<close>, or a literal.
\<close>

datatype trace_kind = Scatter | Bar

datatype trace_name = Str_year int | Year_Avg int | Year_Range int | Literal string

record trace =
  tr_kind :: trace_kind
  tr_x :: "int list"
  tr_y :: "fval list"
  tr_name :: trace_name
  tr_mode :: "string option"
  tr_line_color :: "string option"
  tr_error_y :: "fval list option"
  tr_fill :: "string option"
  tr_fillcolor :: "string option"
  tr_marker_color :: "string option"
  tr_yaxis :: "string option"

record figure =
  fig_data :: "trace list"
  fig_annotations :: "string list"
  fig_title :: "string option"

definition Figure :: figure where
  "Figure = \<lparr>fig_data = [], fig_annotations = [], fig_title = None\<rparr>"

definition add_trace :: "figure \<Rightarrow> trace \<Rightarrow> figure" where
  "add_trace fig t = fig\<lparr>fig_data := fig_data fig @ [t]\<rparr>"

definition add_annotation :: "figure \<Rightarrow> string \<Rightarrow> figure" where
  "add_annotation fig txt = fig\<lparr>fig_annotations := fig_annotations fig @ [txt]\<rparr>"

definition update_layout :: "figure \<Rightarrow> string \<Rightarrow> figure" where
  "update_layout fig title = fig\<lparr>fig_title := Some title\<rparr>"

definition go_Scatter :: "int list \<Rightarrow> fval list \<Rightarrow> trace_name \<Rightarrow> trace" where
  "go_Scatter xs ys nm =
     \<lparr>tr_kind = Scatter, tr_x = xs, tr_y = ys, tr_name = nm, tr_mode = None,
      tr_line_color = None, tr_error_y = None, tr_fill = None, tr_fillcolor = None,
      tr_marker_color = None, tr_yaxis = None\<rparr>"

definition go_Bar :: "int list \<Rightarrow> fval list \<Rightarrow> trace_name \<Rightarrow> trace" where
  "go_Bar xs ys nm =
     \<lparr>tr_kind = Bar, tr_x = xs, tr_y = ys, tr_name = nm, tr_mode = None,
      tr_line_color = None, tr_error_y = None, tr_fill = None, tr_fillcolor = None,
      tr_marker_color = None, tr_yaxis = None\<rparr>"

text \<open>\<^verbatim>\<open>px.colors.qualitative.Set1\<close>, the palette of plotly that every chart indexes.\<close>

definition Set1 :: "string list" where
  "Set1 =
     [''rgb(228,26,28)'', ''rgb(55,126,184)'', ''rgb(77,175,74)'', ''rgb(152,78,163)'',
      ''rgb(255,127,0)'', ''rgb(255,255,51)'', ''rgb(166,86,40)'', ''rgb(247,129,191)'',
      ''rgb(153,153,153)'']"

text \<open>
  Python's \<^verbatim>\<open>str.replace(old, new)\<close>: every occurrence of \<open>old\<close>, left to right without
  overlap; an empty \<open>old\<close> matches before every character and at the end.
\<close>

function replace :: "string \<Rightarrow> string \<Rightarrow> string \<Rightarrow> string" where
  "replace old new s =
     (if old = [] then new @ concat (map (\<lambda>c. c # new) s)
      else if s = [] then []
      else if take (length old) s = old then new @ replace old new (drop (length old) s)
      else hd s # replace old new (tl s))"
  by pat_completeness auto
termination
  by (relation "measure (\<lambda>(old, new, s). length s)") auto

declare replace.simps [simp del]

text \<open>
  The table is an HTML element: \<^verbatim>\<open>html.Div(text)\<close> or \<^verbatim>\<open>html.Table\<close> of rows of cells.
  A cell's text is kept in the form the source builds it: the number itself
  (\<^verbatim>\<open>html.Td(row['Year'])\<close>), \<^verbatim>\<open>f"{value:.2f}"\<close>, \<^verbatim>\<open>f"{value:.2f}%"\<close>, or a literal.
  The second argument of \<open>Td\<close> is the colour of its style, when it has one.
\<close>

datatype cell_text = Number fval | Fmt2f fval | Fmt2f_percent fval | Txt string

datatype cell = Th string | Td cell_text "string option"

datatype html = Div string | Table "cell list list"

section \<open>The main comparison charts\<close>

text \<open>
  Each of the four chart functions receives the frame object that \<^verbatim>\<open>update_charts\<close>
  filtered. A Python function can change the object it is given, so each function of
  the embedding returns its figure together with the frame as the call leaves it.
\<close>

subsection \<open>Overlay by day of year\<close>

text \<open>
  One trace per year of the frame. \<^verbatim>\<open>sort_values('DayOfYear')\<close> is modelled as a stable
  sort; pandas leaves the order of rows with equal keys to its sorting algorithm.
\<close>

definition overlay_trace :: "frame \<Rightarrow> nat \<Rightarrow> int \<Rightarrow> trace" where
  "overlay_trace df i year =
     (let colors = Set1;
          year_data = copy (select_rows (\<lambda>r. Year r = year) df);
          year_data = sort_key DayOfYear (frame_rows year_data)
      in (go_Scatter (map (\<lambda>r. int (DayOfYear r)) year_data) (map (\<lambda>r. Fin (Price r)) year_data)
            (Str_year year))
         \<lparr>tr_mode := Some ''lines'',
          tr_line_color := Some (colors ! (i mod length colors))\<rparr>)"

definition create_overlay_chart :: "frame \<Rightarrow> figure \<times> frame" where
  "create_overlay_chart df =
     (let fig = Figure;
          fig = fold (\<lambda>(i, year) fig. add_trace fig (overlay_trace df i year))
                  (enumerate 0 (sorted_unique (map Year (frame_rows df)))) fig
      in (update_layout fig ''Year-over-Year Price Comparison (Overlay by Day of Year)'', df))"

subsection \<open>Monthly averages\<close>

record monthly_row =
  m_Year :: int
  m_Month :: nat
  m_AvgPrice :: fval
  m_StdPrice :: fval

definition monthly_data :: "frame \<Rightarrow> monthly_row list" where
  "monthly_data df =
     map (\<lambda>((year, month), g).
            \<lparr>m_Year = year, m_Month = month,
             m_AvgPrice = round2 (agg_mean (map Price g)),
             m_StdPrice = round2 (agg_std (map Price g))\<rparr>)
       (groupby (\<lambda>r. (Year r, Month r)) (frame_rows df))"

definition monthly_trace :: "monthly_row list \<Rightarrow> nat \<Rightarrow> int \<Rightarrow> trace" where
  "monthly_trace md i year =
     (let colors = Set1;
          year_data = filter (\<lambda>r. m_Year r = year) md
      in (go_Scatter (map (\<lambda>r. int (m_Month r)) year_data) (map m_AvgPrice year_data)
            (Str_year year))
         \<lparr>tr_mode := Some ''lines+markers'',
          tr_line_color := Some (colors ! (i mod length colors)),
          tr_error_y := Some (map m_StdPrice year_data)\<rparr>)"

definition create_monthly_chart :: "frame \<Rightarrow> figure \<times> frame" where
  "create_monthly_chart df =
     (let md = monthly_data df;
          fig = Figure;
          fig = fold (\<lambda>(i, year) fig. add_trace fig (monthly_trace md i year))
                  (enumerate 0 (sorted_unique (map m_Year md))) fig
      in (update_layout fig ''Monthly Average Price Comparison'', df))"

subsection \<open>Quarterly comparison\<close>

text \<open>
  The function first assigns the column \<^verbatim>\<open>Quarter\<close> of the frame it was given, then
  groups by year and by that column.
\<close>

record quarterly_row =
  q_Year :: int
  q_Quarter :: nat
  q_AvgPrice :: fval
  q_MinPrice :: fval
  q_MaxPrice :: fval
  q_StdPrice :: fval

definition quarterly_data :: "row list \<Rightarrow> nat list \<Rightarrow> quarterly_row list" where
  "quarterly_data rs qs =
     map (\<lambda>((year, q), g).
            \<lparr>q_Year = year, q_Quarter = q,
             q_AvgPrice = round2 (agg_mean (map (\<lambda>(r, q). Price r) g)),
             q_MinPrice = round2 (agg_min (map (\<lambda>(r, q). Price r) g)),
             q_MaxPrice = round2 (agg_max (map (\<lambda>(r, q). Price r) g)),
             q_StdPrice = round2 (agg_std (map (\<lambda>(r, q). Price r) g))\<rparr>)
       (groupby (\<lambda>(r, q). (Year r, q)) (zip rs qs))"

definition rgba_fill :: "string \<Rightarrow> string" where
  "rgba_fill c = replace '')'' '', 0.2)'' (replace ''rgb'' ''rgba'' c)"

definition quarterly_avg_trace :: "quarterly_row list \<Rightarrow> nat \<Rightarrow> int \<Rightarrow> trace" where
  "quarterly_avg_trace qd i year =
     (let colors = Set1;
          year_data = filter (\<lambda>r. q_Year r = year) qd
      in (go_Scatter (map (\<lambda>r. int (q_Quarter r)) year_data) (map q_AvgPrice year_data)
            (Year_Avg year))
         \<lparr>tr_mode := Some ''lines+markers'',
          tr_line_color := Some (colors ! (i mod length colors))\<rparr>)"

definition quarterly_range_trace :: "quarterly_row list \<Rightarrow> nat \<Rightarrow> int \<Rightarrow> trace" where
  "quarterly_range_trace qd i year =
     (let colors = Set1;
          year_data = filter (\<lambda>r. q_Year r = year) qd;
          quarters = map (\<lambda>r. int (q_Quarter r)) year_data
      in (go_Scatter (quarters @ rev quarters)
            (map q_MaxPrice year_data @ rev (map q_MinPrice year_data))
            (Year_Range year))
         \<lparr>tr_fill := Some (if 0 < i then ''tonexty'' else ''tozeroy''),
          tr_fillcolor := Some (rgba_fill (colors ! (i mod length colors))),
          tr_line_color := Some ''rgba(255,255,255,0)''\<rparr>)"

definition create_quarterly_chart :: "frame \<Rightarrow> figure \<times> frame" where
  "create_quarterly_chart df =
     (let qs = map (\<lambda>r. quarter (Date r)) (frame_rows df);
          df = df\<lparr>Quarter := Some qs\<rparr>;
          qd = quarterly_data (frame_rows df) qs;
          fig = Figure;
          fig = fold (\<lambda>(i, year) fig.
                    add_trace (add_trace fig (quarterly_avg_trace qd i year))
                      (quarterly_range_trace qd i year))
                  (enumerate 0 (sorted_unique (map q_Year qd))) fig
      in (update_layout fig ''Quarterly Price Comparison (Average with Min/Max Range)'', df))"

subsection \<open>Weekly patterns\<close>

record weekly_row =
  w_Year :: int
  w_WeekOfYear :: nat
  w_Price :: fval

definition weekly_data :: "frame \<Rightarrow> weekly_row list" where
  "weekly_data df =
     map (\<lambda>((year, week), g).
            \<lparr>w_Year = year, w_WeekOfYear = week, w_Price = round2 (agg_mean (map Price g))\<rparr>)
       (groupby (\<lambda>r. (Year r, WeekOfYear r)) (frame_rows df))"

definition weekly_trace :: "weekly_row list \<Rightarrow> nat \<Rightarrow> int \<Rightarrow> trace" where
  "weekly_trace wd i year =
     (let colors = Set1;
          year_data = filter (\<lambda>r. w_Year r = year) wd
      in (go_Scatter (map (\<lambda>r. int (w_WeekOfYear r)) year_data) (map w_Price year_data)
            (Str_year year))
         \<lparr>tr_mode := Some ''lines'',
          tr_line_color := Some (colors ! (i mod length colors))\<rparr>)"

definition create_weekly_chart :: "frame \<Rightarrow> figure \<times> frame" where
  "create_weekly_chart df =
     (let wd = weekly_data df;
          fig = Figure;
          fig = fold (\<lambda>(i, year) fig. add_trace fig (weekly_trace wd i year))
                  (enumerate 0 (sorted_unique (map w_Year wd))) fig
      in (update_layout fig ''Weekly Average Price Patterns'', df))"

section \<open>The secondary charts\<close>

record stats_row =
  st_Year :: int
  st_Mean :: fval
  st_Median :: fval
  st_Min :: fval
  st_Max :: fval

definition stats :: "frame \<Rightarrow> stats_row list" where
  "stats df =
     map (\<lambda>(year, g).
            \<lparr>st_Year = year,
             st_Mean = round2 (agg_mean (map Price g)),
             st_Median = round2 (agg_median (map Price g)),
             st_Min = round2 (agg_min (map Price g)),
             st_Max = round2 (agg_max (map Price g))\<rparr>)
       (groupby Year (frame_rows df))"

definition create_summary_stats_chart :: "frame \<Rightarrow> figure" where
  "create_summary_stats_chart df =
     (let st = stats df;
          fig = Figure;
          fig = add_trace fig
                  ((go_Bar (map st_Year st) (map st_Mean st) (Literal ''Mean''))
                   \<lparr>tr_marker_color := Some ''lightblue''\<rparr>);
          fig = add_trace fig
                  ((go_Bar (map st_Year st) (map st_Median st) (Literal ''Median''))
                   \<lparr>tr_marker_color := Some ''lightgreen''\<rparr>)
      in update_layout fig ''Annual Price Statistics Comparison'')"

text \<open>
  The second aggregate of the volatility chart is the lambda of the source,
  \<^verbatim>\<open>(x.max() - x.min()) / x.mean() * 100\<close>, on the prices of one year.
\<close>

definition range_percent :: "real list \<Rightarrow> fval" where
  "range_percent xs = fmul (fdiv (fsub (agg_max xs) (agg_min xs)) (agg_mean xs)) (Fin 100)"

record volatility_row =
  v_Year :: int
  v_StdDev :: fval
  v_RangePercent :: fval

definition volatility :: "frame \<Rightarrow> volatility_row list" where
  "volatility df =
     map (\<lambda>(year, g).
            \<lparr>v_Year = year,
             v_StdDev = round2 (agg_std (map Price g)),
             v_RangePercent = round2 (range_percent (map Price g))\<rparr>)
       (groupby Year (frame_rows df))"

definition create_volatility_chart :: "frame \<Rightarrow> figure" where
  "create_volatility_chart df =
     (let vol = volatility df;
          fig = Figure;
          fig = add_trace fig
                  ((go_Bar (map v_Year vol) (map v_StdDev vol) (Literal ''Standard Deviation''))
                   \<lparr>tr_marker_color := Some ''coral'', tr_yaxis := Some ''y''\<rparr>);
          fig = add_trace fig
                  ((go_Scatter (map v_Year vol) (map v_RangePercent vol)
                      (Literal ''Range as % of Mean''))
                   \<lparr>tr_mode := Some ''lines+markers'', tr_marker_color := Some ''darkred'',
                    tr_line_color := Some ''darkred'', tr_yaxis := Some ''y2''\<rparr>)
      in update_layout fig ''Price Volatility Comparison'')"

section \<open>The summary table\<close>

record summary_row =
  s_Year :: int
  s_Days :: nat
  s_Mean :: fval
  s_Median :: fval
  s_Std_Dev :: fval
  s_Min :: fval
  s_Max :: fval

text \<open>
  The six aggregates per year, rounded. \<^verbatim>\<open>count\<close> is an integer column, which
  \<^verbatim>\<open>round(2)\<close> leaves as it is.
\<close>

definition summary :: "frame \<Rightarrow> summary_row list" where
  "summary df =
     map (\<lambda>(year, g).
            \<lparr>s_Year = year,
             s_Days = agg_count (map Price g),
             s_Mean = round2 (agg_mean (map Price g)),
             s_Median = round2 (agg_median (map Price g)),
             s_Std_Dev = round2 (agg_std (map Price g)),
             s_Min = round2 (agg_min (map Price g)),
             s_Max = round2 (agg_max (map Price g))\<rparr>)
       (groupby Year (frame_rows df))"

text \<open>
  \<^verbatim>\<open>Series.pct_change()\<close>: NaN for the first entry, then each entry over the one before
  it, minus one. (Older versions of pandas first fill NaN entries from the entry before;
  the column it is applied to here, the mean of a non-empty group of finite prices, has
  none.)
\<close>

fun pct_change_from :: "fval \<Rightarrow> fval list \<Rightarrow> fval list" where
  "pct_change_from prev [] = []"
| "pct_change_from prev (v # vs) = fsub (fdiv v prev) (Fin 1) # pct_change_from v vs"

definition pct_change :: "fval list \<Rightarrow> fval list" where
  "pct_change vs = (case vs of [] \<Rightarrow> [] | v # rest \<Rightarrow> NaN # pct_change_from v rest)"

text \<open>The column \<^verbatim>\<open>YoY Change (Mean)\<close>: the change of the rounded mean, times 100, rounded.\<close>

definition yoy_change :: "frame \<Rightarrow> fval list" where
  "yoy_change df =
     map round2 (map (\<lambda>v. fmul v (Fin 100)) (pct_change (map s_Mean (summary df))))"

definition table_header :: "cell list" where
  "table_header =
     map Th [''Year'', ''Days'', ''Mean'', ''Median'', ''Std Dev'', ''Min'', ''Max'',
             ''YoY Change (Mean)'']"

text \<open>
  \<^verbatim>\<open>iterrows\<close> yields each row as one Series of dtype float64 (the frame mixes integer
  and float columns), so every value, the year and the count included, is a float: the
  test \<^verbatim>\<open>isinstance(value, float)\<close> of the source holds for every value and the branch
  \<^verbatim>\<open>str(int(value))\<close> is never taken.
\<close>

definition row_values :: "summary_row \<Rightarrow> fval \<Rightarrow> (string \<times> fval) list" where
  "row_values r yoy =
     [(''Days'', Fin (real (s_Days r))), (''Mean'', s_Mean r), (''Median'', s_Median r),
      (''Std Dev'', s_Std_Dev r), (''Min'', s_Min r), (''Max'', s_Max r),
      (''YoY Change (Mean)'', yoy)]"

definition table_cell :: "string \<Rightarrow> fval \<Rightarrow> cell" where
  "table_cell col v =
     (if col = ''YoY Change (Mean)'' \<and> notna v then
        (let color = (if fpos v then ''green'' else if fnegative v then ''red'' else ''black'')
         in Td (Fmt2f_percent v) (Some color))
      else if notna v then Td (Fmt2f v) None
      else Td (Txt ''-'') None)"

definition table_row :: "summary_row \<Rightarrow> fval \<Rightarrow> cell list" where
  "table_row r yoy =
     Td (Number (Fin (of_int (s_Year r)))) None # map (\<lambda>(col, v). table_cell col v) (row_values r yoy)"

definition create_summary_table :: "frame \<Rightarrow> html" where
  "create_summary_table df =
     Table ([table_header] @ map (\<lambda>(r, yoy). table_row r yoy) (zip (summary df) (yoy_change df)))"

section \<open>The callback\<close>

text \<open>
  \<^verbatim>\<open>update_charts\<close> reads the loaded dataset \<open>df\<close> (a global of the module, a parameter
  here), the selected years and the comparison type. The source has no \<^verbatim>\<open>raise\<close>
  statement and defines no exception. The result type has the error of the
  specification, \<open>InvalidScheme\<close>, so that a failure can be told from a result; the
  callback returns \<open>Inr\<close> on every path. A selection or comparison type that is Python's
  \<^verbatim>\<open>None\<close> (a cleared dropdown) takes the branches of the empty list and of an
  unrecognised string.
\<close>

datatype error = InvalidScheme

definition empty_fig :: figure where
  "empty_fig = add_annotation Figure ''Please select at least one year''"

text \<open>
  \<^verbatim>\<open>update_charts_traced\<close> is the callback as the source runs it. Next to its result
  it returns, in the order of the source, the calls it has made to the operations that
  read the dataset: the filter by year and the builders of the charts and of the table,
  each of which groups and aggregates the rows it is given. \<^verbatim>\<open>update_charts\<close> is the
  result alone.
\<close>

datatype aggregation_call =
    Filter_years
  | Create_overlay_chart
  | Create_monthly_chart
  | Create_quarterly_chart
  | Create_weekly_chart
  | Create_summary_stats_chart
  | Create_volatility_chart
  | Create_summary_table

definition update_charts_traced ::
    "frame \<Rightarrow> int list \<Rightarrow> string
       \<Rightarrow> aggregation_call list \<times> (error + (figure \<times> figure \<times> figure \<times> html))" where
  "update_charts_traced df selected_years comparison_type =
     (if selected_years = [] then
        ([], Inr (empty_fig, empty_fig, empty_fig, Div ''No data to display''))
      else
        let filtered_df = copy (select_rows (\<lambda>r. Year r \<in> set selected_years) df);
            calls = [Filter_years];
            (calls, main_fig, filtered_df) =
               (if comparison_type = ''overlay'' then
                  (calls @ [Create_overlay_chart], create_overlay_chart filtered_df)
                else if comparison_type = ''monthly'' then
                  (calls @ [Create_monthly_chart], create_monthly_chart filtered_df)
                else if comparison_type = ''quarterly'' then
                  (calls @ [Create_quarterly_chart], create_quarterly_chart filtered_df)
                else (calls @ [Create_weekly_chart], create_weekly_chart filtered_df));
            stats_fig = create_summary_stats_chart filtered_df;
            calls = calls @ [Create_summary_stats_chart];
            volatility_fig = create_volatility_chart filtered_df;
            calls = calls @ [Create_volatility_chart];
            summary_table = create_summary_table filtered_df;
            calls = calls @ [Create_summary_table]
        in (calls, Inr (main_fig, stats_fig, volatility_fig, summary_table)))"

definition update_charts ::
    "frame \<Rightarrow> int list \<Rightarrow> string \<Rightarrow> error + (figure \<times> figure \<times> figure \<times> html)" where
  "update_charts df selected_years comparison_type =
     snd (update_charts_traced df selected_years comparison_type)"

section \<open>Example datasets\<close>

text \<open>
  Concrete frames on which the theorems below are evaluated. \<open>obs\<close> builds a row as
  \<^verbatim>\<open>load_data\<close> would for the date \<open>y-m-d\<close>, given its day of the year and ISO week.
\<close>

definition obs :: "int \<Rightarrow> nat \<Rightarrow> nat \<Rightarrow> nat \<Rightarrow> nat \<Rightarrow> real \<Rightarrow> row" where
  "obs y m d doy w p =
     \<lparr>Date = \<lparr>d_year = y, d_month = m, d_day = d\<rparr>, Price = p, Year = y, Month = m, Day = d,
      DayOfYear = doy, WeekOfYear = w\<rparr>"

text \<open>The scenario of the specification: prices 10 and 20 in 2020, 30 and 50 in 2021.\<close>

definition two_years :: frame where
  "two_years =
     \<lparr>frame_rows = [obs 2020 1 1 1 1 10, obs 2020 1 2 2 1 20,
                    obs 2021 1 4 4 1 30, obs 2021 1 5 5 1 50],
      Quarter = None\<rparr>"

text \<open>One observation, on 2020-02-15, with a price of three decimals: 1.234.\<close>

definition single_observation :: frame where
  "single_observation = \<lparr>frame_rows = [obs 2020 2 15 46 7 (617 / 500)], Quarter = None\<rparr>"

text \<open>
  One observation in each of two years, with prices of three decimals: 100.004 on
  2020-03-02 and 110.006 on 2021-03-02.
\<close>

definition close_means :: frame where
  "close_means =
     \<lparr>frame_rows = [obs 2020 3 2 62 10 (25001 / 250), obs 2021 3 2 61 9 (55003 / 500)],
      Quarter = None\<rparr>"

section \<open>Lemmas\<close>

subsection \<open>Rounding\<close>

lemma round2_real_two_decimals: "round2_real x * 100 \<in> \<int>"
  by (simp add: round2_real_def)

lemma two_decimals_round2: "two_decimals (round2 v)"
  by (cases v) (simp_all add: round2_real_two_decimals)

subsection \<open>Loops that add traces\<close>

lemma fold_add_trace:
  "fold (\<lambda>(i, year) fig. add_trace fig (g i year)) xs fig =
     fig\<lparr>fig_data := fig_data fig @ map (\<lambda>(i, year). g i year) xs\<rparr>"
  by (induction xs arbitrary: fig) (auto simp: add_trace_def)

lemma fold_add_two_traces:
  "fold (\<lambda>(i, year) fig. add_trace (add_trace fig (g i year)) (h i year)) xs fig =
     fig\<lparr>fig_data := fig_data fig @ concat (map (\<lambda>(i, year). [g i year, h i year]) xs)\<rparr>"
  by (induction xs arbitrary: fig) (auto simp: add_trace_def)

subsection \<open>Distinct sorted values and groups\<close>

lemma set_sorted_unique [simp]: "set (sorted_unique xs) = set xs"
  by (simp add: sorted_unique_def)

lemma sorted_sorted_unique [simp]: "sorted (sorted_unique xs)"
  by (simp add: sorted_unique_def)

lemma distinct_sorted_unique [simp]: "distinct (sorted_unique xs)"
  by (simp add: sorted_unique_def)

lemma sorted_unique_eq_sorted_list_of_set: "sorted_unique xs = sorted_list_of_set (set xs)"
  by (simp add: sorted_unique_def sorted_list_of_set_sort_remdups)

lemma sorted_unique_cong: "set xs = set ys \<Longrightarrow> sorted_unique xs = sorted_unique ys"
  by (simp add: sorted_unique_eq_sorted_list_of_set)

lemma map_fst_groupby: "map fst (groupby key rs) = sorted_unique (map key rs)"
  by (simp add: groupby_def comp_def)

lemma groupby_member:
  assumes "(k, g) \<in> set (groupby key rs)"
  shows "g = filter (\<lambda>r. key r = k) rs" and "k \<in> key ` set rs" and "g \<noteq> []"
  using assms by (auto simp: groupby_def filter_empty_conv)

subsection \<open>The years of the aggregated frames\<close>

lemma frame_rows_filtered [simp]:
  "frame_rows (copy (select_rows P df)) = filter P (frame_rows df)"
  by (simp add: copy_def select_rows_def)

lemma set_Year_monthly: "set (map m_Year (monthly_data df)) = set (map Year (frame_rows df))"
  by (force simp: monthly_data_def groupby_def image_iff)

lemma set_Year_weekly: "set (map w_Year (weekly_data df)) = set (map Year (frame_rows df))"
  by (force simp: weekly_data_def groupby_def image_iff)

lemma set_Year_quarterly:
  assumes "length qs = length rs"
  shows "set (map q_Year (quarterly_data rs qs)) = set (map Year rs)"
proof -
  have "map q_Year (quarterly_data rs qs) =
        map fst (sorted_unique (map (\<lambda>(r, q). (Year r, q)) (zip rs qs)))"
    by (simp add: quarterly_data_def groupby_def comp_def case_prod_unfold)
  then have "set (map q_Year (quarterly_data rs qs)) = (\<lambda>p. Year (fst p)) ` set (zip rs qs)"
    by (force simp: image_iff case_prod_unfold)
  also have "\<dots> = Year ` set (map fst (zip rs qs))"
    by (simp add: image_image)
  also have "map fst (zip rs qs) = rs"
    using assms by simp
  finally show ?thesis by simp
qed

lemma map_Year_summary: "map s_Year (summary df) = sorted_unique (map Year (frame_rows df))"
  by (simp add: summary_def groupby_def comp_def)

lemma map_Year_stats: "map st_Year (stats df) = sorted_unique (map Year (frame_rows df))"
  by (simp add: stats_def groupby_def comp_def)

lemma map_Year_volatility: "map v_Year (volatility df) = sorted_unique (map Year (frame_rows df))"
  by (simp add: volatility_def groupby_def comp_def)

subsection \<open>The callback on a non-empty selection\<close>

lemma stats_Quarter [simp]: "stats (df\<lparr>Quarter := q\<rparr>) = stats df"
  by (simp add: stats_def)

lemma volatility_Quarter [simp]: "volatility (df\<lparr>Quarter := q\<rparr>) = volatility df"
  by (simp add: volatility_def)

lemma summary_Quarter [simp]: "summary (df\<lparr>Quarter := q\<rparr>) = summary df"
  by (simp add: summary_def)

lemma secondary_Quarter [simp]:
  "create_summary_stats_chart (df\<lparr>Quarter := q\<rparr>) = create_summary_stats_chart df"
  "create_volatility_chart (df\<lparr>Quarter := q\<rparr>) = create_volatility_chart df"
  "create_summary_table (df\<lparr>Quarter := q\<rparr>) = create_summary_table df"
  by (simp_all add: create_summary_stats_chart_def create_volatility_chart_def
      create_summary_table_def yoy_change_def)

lemma snd_create_chart:
  "snd (create_overlay_chart df) = df"
  "snd (create_monthly_chart df) = df"
  "snd (create_weekly_chart df) = df"
  "snd (create_quarterly_chart df) =
     df\<lparr>Quarter := Some (map (\<lambda>r. quarter (Date r)) (frame_rows df))\<rparr>"
  by (simp_all add: create_overlay_chart_def create_monthly_chart_def create_weekly_chart_def
      create_quarterly_chart_def Let_def)

lemma update_charts_selected:
  assumes "selected_years \<noteq> []"
  shows "update_charts df selected_years comparison_type =
           Inr (fst (if comparison_type = ''overlay'' then
                       create_overlay_chart (copy (select_rows (\<lambda>r. Year r \<in> set selected_years) df))
                     else if comparison_type = ''monthly'' then
                       create_monthly_chart (copy (select_rows (\<lambda>r. Year r \<in> set selected_years) df))
                     else if comparison_type = ''quarterly'' then
                       create_quarterly_chart (copy (select_rows (\<lambda>r. Year r \<in> set selected_years) df))
                     else create_weekly_chart (copy (select_rows (\<lambda>r. Year r \<in> set selected_years) df))),
                create_summary_stats_chart (copy (select_rows (\<lambda>r. Year r \<in> set selected_years) df)),
                create_volatility_chart (copy (select_rows (\<lambda>r. Year r \<in> set selected_years) df)),
                create_summary_table (copy (select_rows (\<lambda>r. Year r \<in> set selected_years) df)))"
  using assms
  by (simp add: update_charts_def update_charts_traced_def Let_def case_prod_unfold
      snd_create_chart)

subsection \<open>Evaluation on the example datasets\<close>

lemmas frame_eval = obs_def select_rows_def copy_def groupby_def sorted_unique_def
  enumerate_eq_zip Let_def

lemmas figure_eval = Figure_def add_trace_def update_layout_def go_Scatter_def go_Bar_def
  Set1_def

lemmas number_eval = round2_real_def rint_def agg_mean_def agg_count_def

section \<open>Properties of the dashboard\<close>

subsection \<open>C1: an unrecognised comparison type\<close>

text \<open>
  C1 states that a comparison type outside \<^verbatim>\<open>'overlay'\<close>, \<^verbatim>\<open>'monthly'\<close>,
  \<^verbatim>\<open>'quarterly'\<close>, \<^verbatim>\<open>'weekly'\<close> makes the dispatch of \<^verbatim>\<open>update_charts\<close> fail with
  \<open>InvalidScheme\<close>. The dispatch ends in a plain \<^verbatim>\<open>else\<close>: on the example dataset with
  the year 2020 selected, the unrecognised type \<^verbatim>\<open>'yearly'\<close> does not fail; the main
  figure is the weekly chart, with the one weekly mean of 2020.
\<close>

theorem C1_counterexample:
  "update_charts two_years [2020] ''yearly'' \<noteq> Inl InvalidScheme
   \<and> fst (projr (update_charts two_years [2020] ''yearly'')) =
       \<lparr>fig_data =
          [\<lparr>tr_kind = Scatter, tr_x = [1], tr_y = [Fin 15], tr_name = Str_year 2020,
            tr_mode = Some ''lines'', tr_line_color = Some ''rgb(228,26,28)'',
            tr_error_y = None, tr_fill = None, tr_fillcolor = None, tr_marker_color = None,
            tr_yaxis = None\<rparr>],
        fig_annotations = [],
        fig_title = Some ''Weekly Average Price Patterns''\<rparr>"
  by (simp add: update_charts_selected create_weekly_chart_def weekly_data_def weekly_trace_def
      two_years_def frame_eval figure_eval number_eval)

text \<open>
  C1 as amended: for a non-empty selection, every comparison type other than
  \<^verbatim>\<open>'overlay'\<close>, \<^verbatim>\<open>'monthly'\<close> and \<^verbatim>\<open>'quarterly'\<close> (so \<^verbatim>\<open>'weekly'\<close> and every
  unrecognised value alike) gives exactly the result of \<^verbatim>\<open>'weekly'\<close>: the callback
  does not fail with \<open>InvalidScheme\<close>, and its main figure is the weekly chart of the
  filtered rows.
\<close>

theorem C1_unrecognised_type_is_weekly:
  assumes "selected_years \<noteq> []"
    and "comparison_type \<noteq> ''overlay''"
    and "comparison_type \<noteq> ''monthly''"
    and "comparison_type \<noteq> ''quarterly''"
  shows "update_charts df selected_years comparison_type
           = update_charts df selected_years ''weekly''
       \<and> update_charts df selected_years comparison_type \<noteq> Inl InvalidScheme
       \<and> fst (projr (update_charts df selected_years comparison_type))
           = fst (create_weekly_chart (copy (select_rows (\<lambda>r. Year r \<in> set selected_years) df)))"
  using assms by (simp add: update_charts_selected)

theorem C1_witness:
  "update_charts two_years [2020, 2021] ''yearly'' = update_charts two_years [2020, 2021] ''weekly''
   \<and> update_charts two_years [2020, 2021] ''yearly'' \<noteq> Inl InvalidScheme
   \<and> map tr_y (fig_data (fst (projr (update_charts two_years [2020, 2021] ''yearly''))))
       = [[Fin 15], [Fin 40]]"
proof -
  have sel: "[2020, 2021] \<noteq> ([] :: int list)"
    by simp
  have ne: "''yearly'' \<noteq> ''overlay''" "''yearly'' \<noteq> ''monthly''" "''yearly'' \<noteq> ''quarterly''"
    by simp_all
  note th = C1_unrecognised_type_is_weekly [OF sel ne, of two_years]
  have weekly: "map tr_y (fig_data (fst (create_weekly_chart
          (copy (select_rows (\<lambda>r. Year r \<in> set [2020, 2021]) two_years))))) = [[Fin 15], [Fin 40]]"
    by (simp add: create_weekly_chart_def weekly_data_def weekly_trace_def
        two_years_def frame_eval figure_eval number_eval)
  show ?thesis
    by (intro conjI, rule th [THEN conjunct1], rule th [THEN conjunct2, THEN conjunct1],
        simp only: th [THEN conjunct2, THEN conjunct2] weekly)
qed

subsection \<open>C3: the empty selection\<close>

text \<open>
  C3: with no year selected, \<^verbatim>\<open>update_charts\<close> returns the same placeholder figure
  (no trace, the annotation asking for a selection) in each of the three chart slots and
  the marker \<^verbatim>\<open>No data to display\<close> in place of the table, for every dataset and
  every comparison type. On that path it makes no call to the filter nor to any builder
  of a chart or of the table: nothing of the dataset is filtered, grouped or aggregated.
  On a selection that is not empty it makes five such calls, the filter first.
\<close>

theorem C3_empty_selection_placeholders:
  "update_charts_traced df [] comparison_type =
     ([], Inr (empty_fig, empty_fig, empty_fig, Div ''No data to display''))
   \<and> update_charts df [] comparison_type =
     Inr (empty_fig, empty_fig, empty_fig, Div ''No data to display'')
   \<and> empty_fig = \<lparr>fig_data = [], fig_annotations = [''Please select at least one year''],
                   fig_title = None\<rparr>
   \<and> fst (update_charts_traced df (year # years) comparison_type) =
     [Filter_years,
      if comparison_type = ''overlay'' then Create_overlay_chart
      else if comparison_type = ''monthly'' then Create_monthly_chart
      else if comparison_type = ''quarterly'' then Create_quarterly_chart
      else Create_weekly_chart,
      Create_summary_stats_chart, Create_volatility_chart, Create_summary_table]"
  by (simp add: update_charts_def update_charts_traced_def empty_fig_def add_annotation_def
      Figure_def Let_def case_prod_unfold)

subsection \<open>C2: effects of the chart functions\<close>

lemma fst_create_chart_Quarter:
  "fst (create_overlay_chart (df\<lparr>Quarter := q\<rparr>)) = fst (create_overlay_chart df)"
  "fst (create_monthly_chart (df\<lparr>Quarter := q\<rparr>)) = fst (create_monthly_chart df)"
  "fst (create_weekly_chart (df\<lparr>Quarter := q\<rparr>)) = fst (create_weekly_chart df)"
  "fst (create_quarterly_chart (df\<lparr>Quarter := q\<rparr>)) = fst (create_quarterly_chart df)"
  by (simp_all add: create_overlay_chart_def create_monthly_chart_def create_weekly_chart_def
      create_quarterly_chart_def Let_def overlay_trace_def monthly_data_def weekly_data_def
      select_rows_def copy_def)

text \<open>
  C2 states that each of the four aggregation operations leaves its input unchanged.
  \<^verbatim>\<open>create_quarterly_chart\<close> assigns \<^verbatim>\<open>df['Quarter']\<close> on the frame it is given: on the
  example dataset, which has no such column, the frame after the call has the column,
  with quarter 1 for each of its four rows.
\<close>

theorem C2_counterexample:
  "snd (create_quarterly_chart two_years) = two_years\<lparr>Quarter := Some [1, 1, 1, 1]\<rparr>
   \<and> snd (create_quarterly_chart two_years) \<noteq> two_years"
  by (simp add: snd_create_chart two_years_def obs_def quarter_def)

text \<open>
  C2 as amended: the overlay, monthly and weekly operations leave the frame they are
  given unchanged. The quarterly operation leaves its rows unchanged and sets the
  column \<^verbatim>\<open>Quarter\<close> of the frame it is given (in \<^verbatim>\<open>update_charts\<close> that frame is the
  filtered copy, never the loaded dataset); a second call on the frame the first call
  left gives the same figure and the same frame. The figure of each of the four
  operations does not depend on the \<^verbatim>\<open>Quarter\<close> column of its input: it is a function
  of the rows alone, so identical rows give identical output.
\<close>

theorem C2_effects_of_aggregation:
  "snd (create_overlay_chart df) = df
   \<and> snd (create_monthly_chart df) = df
   \<and> snd (create_weekly_chart df) = df
   \<and> snd (create_quarterly_chart df) =
        df\<lparr>Quarter := Some (map (\<lambda>r. quarter (Date r)) (frame_rows df))\<rparr>
   \<and> frame_rows (snd (create_quarterly_chart df)) = frame_rows df
   \<and> create_quarterly_chart (snd (create_quarterly_chart df)) = create_quarterly_chart df
   \<and> fst (create_overlay_chart (df\<lparr>Quarter := q\<rparr>)) = fst (create_overlay_chart df)
   \<and> fst (create_monthly_chart (df\<lparr>Quarter := q\<rparr>)) = fst (create_monthly_chart df)
   \<and> fst (create_weekly_chart (df\<lparr>Quarter := q\<rparr>)) = fst (create_weekly_chart df)
   \<and> fst (create_quarterly_chart (df\<lparr>Quarter := q\<rparr>)) = fst (create_quarterly_chart df)"
  by (simp add: snd_create_chart fst_create_chart_Quarter prod_eq_iff)

subsection \<open>The traces of the main figures\<close>

lemma fig_data_update_layout [simp]: "fig_data (update_layout fig t) = fig_data fig"
  by (simp add: update_layout_def)

lemma fig_data_overlay:
  "fig_data (fst (create_overlay_chart df)) =
     map (\<lambda>(i, year). overlay_trace df i year)
       (enumerate 0 (sorted_unique (map Year (frame_rows df))))"
  by (simp add: create_overlay_chart_def Let_def fold_add_trace Figure_def)

lemma fig_data_monthly:
  "fig_data (fst (create_monthly_chart df)) =
     map (\<lambda>(i, year). monthly_trace (monthly_data df) i year)
       (enumerate 0 (sorted_unique (map Year (frame_rows df))))"
  using sorted_unique_cong [OF set_Year_monthly [of df]]
  by (simp add: create_monthly_chart_def Let_def fold_add_trace Figure_def)

lemma fig_data_weekly:
  "fig_data (fst (create_weekly_chart df)) =
     map (\<lambda>(i, year). weekly_trace (weekly_data df) i year)
       (enumerate 0 (sorted_unique (map Year (frame_rows df))))"
  using sorted_unique_cong [OF set_Year_weekly [of df]]
  by (simp add: create_weekly_chart_def Let_def fold_add_trace Figure_def)

lemma fig_data_quarterly:
  "fig_data (fst (create_quarterly_chart df)) =
     concat (map (\<lambda>(i, year).
                   [quarterly_avg_trace
                      (quarterly_data (frame_rows df) (map (\<lambda>r. quarter (Date r)) (frame_rows df)))
                      i year,
                    quarterly_range_trace
                      (quarterly_data (frame_rows df) (map (\<lambda>r. quarter (Date r)) (frame_rows df)))
                      i year])
       (enumerate 0 (sorted_unique (map Year (frame_rows df)))))"
  using sorted_unique_cong [OF set_Year_quarterly
      [of "map (\<lambda>r. quarter (Date r)) (frame_rows df)" "frame_rows df"]]
  by (simp add: create_quarterly_chart_def Let_def fold_add_two_traces Figure_def)

lemma tr_name_traces [simp]:
  "tr_name (overlay_trace df i year) = Str_year year"
  "tr_name (monthly_trace md i year) = Str_year year"
  "tr_name (weekly_trace wd i year) = Str_year year"
  "tr_name (quarterly_avg_trace qd i year) = Year_Avg year"
  "tr_name (quarterly_range_trace qd i year) = Year_Range year"
  by (simp_all add: overlay_trace_def monthly_trace_def weekly_trace_def quarterly_avg_trace_def
      quarterly_range_trace_def go_Scatter_def Let_def)

lemma snd_in_enumerate: "(i, y) \<in> set (enumerate n xs) \<Longrightarrow> y \<in> set xs"
  by (auto simp: in_set_enumerate_eq)

lemma main_trace_names:
  assumes "t \<in> set (fig_data (fst (if ct = ''overlay'' then create_overlay_chart F
                     else if ct = ''monthly'' then create_monthly_chart F
                     else if ct = ''quarterly'' then create_quarterly_chart F
                     else create_weekly_chart F)))"
  shows "\<exists>y \<in> Year ` set (frame_rows F).
           tr_name t = Str_year y \<or> tr_name t = Year_Avg y \<or> tr_name t = Year_Range y"
  using assms
  by (auto simp: fig_data_overlay fig_data_monthly fig_data_weekly fig_data_quarterly
      dest!: snd_in_enumerate split: if_splits)

subsection \<open>C6: only selected years\<close>

text \<open>
  C6: for a non-empty selection, every row the aggregation works on and every row it
  produces belongs to a selected year: the filtered observations the overlay passes
  through, the rows of the monthly, quarterly and weekly aggregates, and the traces of
  the main figure (each named after one year). Every such year also occurs in the
  dataset, so a selected year that the dataset does not have contributes no row and
  no trace; the callback returns a result, not an error.
\<close>

theorem C6_only_selected_years:
  fixes df :: frame and selected_years :: "int list" and comparison_type :: string
  defines "F \<equiv> copy (select_rows (\<lambda>r. Year r \<in> set selected_years) df)"
  assumes "selected_years \<noteq> []"
  shows "(\<forall>r \<in> set (frame_rows F). Year r \<in> set selected_years \<and> r \<in> set (frame_rows df))
       \<and> (\<forall>r \<in> set (monthly_data F).
             m_Year r \<in> set selected_years \<inter> Year ` set (frame_rows df))
       \<and> (\<forall>r \<in> set (quarterly_data (frame_rows F) (map (\<lambda>r. quarter (Date r)) (frame_rows F))).
             q_Year r \<in> set selected_years \<inter> Year ` set (frame_rows df))
       \<and> (\<forall>r \<in> set (weekly_data F).
             w_Year r \<in> set selected_years \<inter> Year ` set (frame_rows df))
       \<and> (\<forall>t \<in> set (fig_data (fst (projr (update_charts df selected_years comparison_type)))).
             \<exists>y \<in> set selected_years \<inter> Year ` set (frame_rows df).
               tr_name t = Str_year y \<or> tr_name t = Year_Avg y \<or> tr_name t = Year_Range y)
       \<and> update_charts df selected_years comparison_type \<noteq> Inl InvalidScheme"
proof -
  have rows: "frame_rows F = filter (\<lambda>r. Year r \<in> set selected_years) (frame_rows df)"
    by (simp add: F_def)
  have years: "Year ` set (frame_rows F) \<subseteq> set selected_years \<inter> Year ` set (frame_rows df)"
    by (auto simp: rows)
  have 1: "\<forall>r \<in> set (frame_rows F). Year r \<in> set selected_years \<and> r \<in> set (frame_rows df)"
    by (simp add: rows)
  have 2: "\<forall>r \<in> set (monthly_data F).
             m_Year r \<in> set selected_years \<inter> Year ` set (frame_rows df)"
    using years set_Year_monthly [of F] by (metis image_eqI list.set_map subsetD)
  have 3: "\<forall>r \<in> set (quarterly_data (frame_rows F) (map (\<lambda>r. quarter (Date r)) (frame_rows F))).
             q_Year r \<in> set selected_years \<inter> Year ` set (frame_rows df)"
    using years set_Year_quarterly [of "map (\<lambda>r. quarter (Date r)) (frame_rows F)" "frame_rows F"]
    by (metis image_eqI length_map list.set_map subsetD)
  have 4: "\<forall>r \<in> set (weekly_data F).
             w_Year r \<in> set selected_years \<inter> Year ` set (frame_rows df)"
    using years set_Year_weekly [of F] by (metis image_eqI list.set_map subsetD)
  have 5: "\<forall>t \<in> set (fig_data (fst (projr (update_charts df selected_years comparison_type)))).
             \<exists>y \<in> set selected_years \<inter> Year ` set (frame_rows df).
               tr_name t = Str_year y \<or> tr_name t = Year_Avg y \<or> tr_name t = Year_Range y"
  proof
    fix t
    assume "t \<in> set (fig_data (fst (projr (update_charts df selected_years comparison_type))))"
    then have "t \<in> set (fig_data (fst (if comparison_type = ''overlay'' then create_overlay_chart F
                     else if comparison_type = ''monthly'' then create_monthly_chart F
                     else if comparison_type = ''quarterly'' then create_quarterly_chart F
                     else create_weekly_chart F)))"
      unfolding update_charts_selected [OF assms(2)] F_def by (simp only: sum.sel fst_conv)
    from main_trace_names [OF this] years
    show "\<exists>y \<in> set selected_years \<inter> Year ` set (frame_rows df).
            tr_name t = Str_year y \<or> tr_name t = Year_Avg y \<or> tr_name t = Year_Range y"
      by blast
  qed
  have 6: "update_charts df selected_years comparison_type \<noteq> Inl InvalidScheme"
    using assms(2) by (simp add: update_charts_selected)
  from 1 2 3 4 5 6 show ?thesis by blast
qed

theorem C6_witness:
  "map tr_name (fig_data (fst (projr (update_charts two_years [2021, 2019] ''monthly''))))
     = [Str_year 2021]
   \<and> map m_Year (monthly_data (copy (select_rows (\<lambda>r. Year r \<in> set [2021, 2019]) two_years)))
     = [2021]
   \<and> m_Year (hd (monthly_data (copy (select_rows (\<lambda>r. Year r \<in> set [2021, 2019]) two_years))))
     \<in> set [2021, 2019] \<inter> Year ` set (frame_rows two_years)
   \<and> update_charts two_years [2021, 2019] ''monthly'' \<noteq> Inl InvalidScheme"
proof -
  have sel: "[2021, 2019] \<noteq> ([] :: int list)"
    by simp
  note th = C6_only_selected_years [OF sel, of two_years "''monthly''"]
  have years: "map m_Year (monthly_data (copy (select_rows (\<lambda>r. Year r \<in> set [2021, 2019]) two_years)))
     = [2021]"
    by (simp add: monthly_data_def two_years_def frame_eval)
  then have "hd (monthly_data (copy (select_rows (\<lambda>r. Year r \<in> set [2021, 2019]) two_years)))
     \<in> set (monthly_data (copy (select_rows (\<lambda>r. Year r \<in> set [2021, 2019]) two_years)))"
    by (intro hd_in_set) auto
  with th have member: "m_Year (hd (monthly_data (copy (select_rows (\<lambda>r. Year r \<in> set [2021, 2019]) two_years))))
     \<in> set [2021, 2019] \<inter> Year ` set (frame_rows two_years)"
    by blast
  have names: "map tr_name (fig_data (fst (projr (update_charts two_years [2021, 2019] ''monthly''))))
     = [Str_year 2021]"
    by (simp add: update_charts_selected fig_data_monthly two_years_def frame_eval)
  from th have "update_charts two_years [2021, 2019] ''monthly'' \<noteq> Inl InvalidScheme"
    by blast
  with names years member show ?thesis
    by (simp only: simp_thms)
qed

subsection \<open>C5: two decimals\<close>

lemma agg_nonempty:
  assumes "xs \<noteq> []"
  shows "is_finite (agg_mean xs)" "is_finite (agg_min xs)" "is_finite (agg_max xs)"
    "is_finite (agg_median xs)"
  using assms
  by (simp_all add: agg_mean_def agg_min_def agg_max_def agg_median_def Let_def split: list.splits)

lemma is_finite_round2 [simp]: "is_finite (round2 v) = is_finite v"
  by (cases v) simp_all

lemma monthly_fields:
  assumes "r \<in> set (monthly_data df)"
  shows "two_decimals (m_AvgPrice r) \<and> is_finite (m_AvgPrice r)" "two_decimals (m_StdPrice r)"
  using assms
  by (auto simp: monthly_data_def two_decimals_round2 dest!: groupby_member(3)
      intro!: agg_nonempty)

lemma quarterly_fields:
  assumes "r \<in> set (quarterly_data rs qs)"
  shows "two_decimals (q_AvgPrice r) \<and> is_finite (q_AvgPrice r)" "two_decimals (q_MinPrice r) \<and> is_finite (q_MinPrice r)"
    "two_decimals (q_MaxPrice r) \<and> is_finite (q_MaxPrice r)" "two_decimals (q_StdPrice r)"
  using assms
  by (auto simp: quarterly_data_def two_decimals_round2 dest!: groupby_member(3)
      intro!: agg_nonempty)

lemma weekly_fields:
  assumes "r \<in> set (weekly_data df)"
  shows "two_decimals (w_Price r) \<and> is_finite (w_Price r)"
  using assms
  by (auto simp: weekly_data_def two_decimals_round2 dest!: groupby_member(3)
      intro!: agg_nonempty)

lemma summary_fields:
  assumes "r \<in> set (summary df)"
  shows "two_decimals (s_Mean r) \<and> is_finite (s_Mean r)" "two_decimals (s_Median r) \<and> is_finite (s_Median r)"
    "two_decimals (s_Min r) \<and> is_finite (s_Min r)" "two_decimals (s_Max r) \<and> is_finite (s_Max r)" "two_decimals (s_Std_Dev r)"
  using assms
  by (auto simp: summary_def two_decimals_round2 dest!: groupby_member(3)
      intro!: agg_nonempty)

lemma yoy_fields:
  assumes "v \<in> set (yoy_change df)"
  shows "two_decimals v"
  using assms by (auto simp: yoy_change_def two_decimals_round2)

text \<open>
  C5: every numeric field of the monthly, quarterly and weekly aggregate rows and of the
  summary rows, the year-over-year change included, has at most two decimal digits: it
  is the result of \<^verbatim>\<open>round(2)\<close>. Means, medians, minima and maxima are always numbers
  (a group has at least one row). A standard deviation can be NaN, and a year-over-year
  change NaN or infinite; such a cell has no digits. The count of days is an integer.
\<close>

theorem C5_two_decimals:
  "(\<forall>r \<in> set (monthly_data df).
      two_decimals (m_AvgPrice r) \<and> is_finite (m_AvgPrice r) \<and> two_decimals (m_StdPrice r))
   \<and> (\<forall>r \<in> set (quarterly_data rs qs).
      two_decimals (q_AvgPrice r) \<and> is_finite (q_AvgPrice r)
      \<and> two_decimals (q_MinPrice r) \<and> is_finite (q_MinPrice r)
      \<and> two_decimals (q_MaxPrice r) \<and> is_finite (q_MaxPrice r)
      \<and> two_decimals (q_StdPrice r))
   \<and> (\<forall>r \<in> set (weekly_data df). two_decimals (w_Price r) \<and> is_finite (w_Price r))
   \<and> (\<forall>r \<in> set (summary df).
      two_decimals (s_Mean r) \<and> is_finite (s_Mean r)
      \<and> two_decimals (s_Median r) \<and> is_finite (s_Median r)
      \<and> two_decimals (s_Std_Dev r)
      \<and> two_decimals (s_Min r) \<and> is_finite (s_Min r)
      \<and> two_decimals (s_Max r) \<and> is_finite (s_Max r))
   \<and> (\<forall>v \<in> set (yoy_change df). two_decimals v)"
  by (simp add: monthly_fields quarterly_fields weekly_fields summary_fields yoy_fields)

lemma yoy_two_years: "yoy_change two_years = [NaN, Fin (16667 / 100)]"
  by (simp add: yoy_change_def summary_def pct_change_def fsub_def two_years_def
      frame_eval number_eval)

theorem C5_witness:
  "map s_Mean (summary two_years) = [Fin 15, Fin 40]
   \<and> yoy_change two_years = [NaN, Fin (16667 / 100)]
   \<and> two_decimals (s_Mean (hd (summary two_years)))
   \<and> two_decimals (yoy_change two_years ! 1)"
proof -
  note th = C5_two_decimals [of two_years "[]" "[]"]
  have means: "map s_Mean (summary two_years) = [Fin 15, Fin 40]"
    by (simp add: summary_def two_years_def frame_eval number_eval)
  then have "hd (summary two_years) \<in> set (summary two_years)"
    by (intro hd_in_set) auto
  with th have 1: "two_decimals (s_Mean (hd (summary two_years)))"
    by blast
  have "yoy_change two_years ! 1 \<in> set (yoy_change two_years)"
    by (simp add: yoy_two_years)
  with th have 2: "two_decimals (yoy_change two_years ! 1)"
    by blast
  from means yoy_two_years 1 2 show ?thesis
    by (simp only: simp_thms)
qed

subsection \<open>C8: a bucket with a single observation\<close>

lemma rint_of_int [simp]: "rint (of_int k) = k"
  by (simp add: rint_def)

lemma round2_real_exact:
  assumes "x * 100 \<in> \<int>"
  shows "round2_real x = x"
proof -
  from assms obtain k where k: "x * 100 = of_int k"
    by (auto elim: Ints_cases)
  then have "round2_real x = of_int k / 100"
    by (simp add: round2_real_def)
  also have "\<dots> = x"
    using k by simp
  finally show ?thesis .
qed

lemma agg_single [simp]:
  "agg_mean [p] = Fin p" "agg_min [p] = Fin p" "agg_max [p] = Fin p" "agg_std [p] = NaN"
  by (simp_all add: agg_mean_def agg_min_def agg_max_def agg_std_def)

lemma length_less_2: "xs \<noteq> [] \<Longrightarrow> length xs < 2 \<Longrightarrow> \<exists>x. xs = [x]"
  by (cases xs) (auto simp: less_Suc_eq)

lemma monthly_bucket:
  assumes "r \<in> set (monthly_data df)"
  shows "filter (\<lambda>x. Year x = m_Year r \<and> Month x = m_Month r) (frame_rows df) \<noteq> []"
    and "m_AvgPrice r = round2 (agg_mean (map Price
           (filter (\<lambda>x. Year x = m_Year r \<and> Month x = m_Month r) (frame_rows df))))"
    and "m_StdPrice r = round2 (agg_std (map Price
           (filter (\<lambda>x. Year x = m_Year r \<and> Month x = m_Month r) (frame_rows df))))"
  using assms
  by (auto simp: monthly_data_def groupby_def filter_empty_conv)

lemma quarterly_bucket:
  assumes "r \<in> set (quarterly_data rs (map (\<lambda>x. quarter (Date x)) rs))"
  shows "q_AvgPrice r = round2 (agg_mean (map Price
           (filter (\<lambda>x. Year x = q_Year r \<and> quarter (Date x) = q_Quarter r) rs)))"
    and "q_MinPrice r = round2 (agg_min (map Price
           (filter (\<lambda>x. Year x = q_Year r \<and> quarter (Date x) = q_Quarter r) rs)))"
    and "q_MaxPrice r = round2 (agg_max (map Price
           (filter (\<lambda>x. Year x = q_Year r \<and> quarter (Date x) = q_Quarter r) rs)))"
    and "q_StdPrice r = round2 (agg_std (map Price
           (filter (\<lambda>x. Year x = q_Year r \<and> quarter (Date x) = q_Quarter r) rs)))"
proof -
  have zip_eq: "zip rs (map (\<lambda>x. quarter (Date x)) rs) = map (\<lambda>x. (x, quarter (Date x))) rs"
    by (induction rs) auto
  have prices: "map (\<lambda>(r, q). Price r) (filter (\<lambda>(r, q). (Year r, q) = k) (map (\<lambda>x. (x, quarter (Date x))) rs))
      = map Price (filter (\<lambda>x. Year x = fst k \<and> quarter (Date x) = snd k) rs)" for k
    by (induction rs) (auto simp: prod_eq_iff)
  from assms obtain k where "k \<in> set (sorted_unique (map (\<lambda>(r, q). (Year r, q)) (zip rs (map (\<lambda>x. quarter (Date x)) rs))))"
    and r: "r = \<lparr>q_Year = fst k, q_Quarter = snd k,
             q_AvgPrice = round2 (agg_mean (map (\<lambda>(r, q). Price r) (filter (\<lambda>(r, q). (Year r, q) = k) (zip rs (map (\<lambda>x. quarter (Date x)) rs))))),
             q_MinPrice = round2 (agg_min (map (\<lambda>(r, q). Price r) (filter (\<lambda>(r, q). (Year r, q) = k) (zip rs (map (\<lambda>x. quarter (Date x)) rs))))),
             q_MaxPrice = round2 (agg_max (map (\<lambda>(r, q). Price r) (filter (\<lambda>(r, q). (Year r, q) = k) (zip rs (map (\<lambda>x. quarter (Date x)) rs))))),
             q_StdPrice = round2 (agg_std (map (\<lambda>(r, q). Price r) (filter (\<lambda>(r, q). (Year r, q) = k) (zip rs (map (\<lambda>x. quarter (Date x)) rs)))))\<rparr>"
    by (auto simp: quarterly_data_def groupby_def case_prod_unfold)
  show "q_AvgPrice r = round2 (agg_mean (map Price
           (filter (\<lambda>x. Year x = q_Year r \<and> quarter (Date x) = q_Quarter r) rs)))"
    and "q_MinPrice r = round2 (agg_min (map Price
           (filter (\<lambda>x. Year x = q_Year r \<and> quarter (Date x) = q_Quarter r) rs)))"
    and "q_MaxPrice r = round2 (agg_max (map Price
           (filter (\<lambda>x. Year x = q_Year r \<and> quarter (Date x) = q_Quarter r) rs)))"
    and "q_StdPrice r = round2 (agg_std (map Price
           (filter (\<lambda>x. Year x = q_Year r \<and> quarter (Date x) = q_Quarter r) rs)))"
    by (simp_all add: r zip_eq prices)
qed

text \<open>
  C8 states that the quarterly aggregate of a bucket with a single observation has
  minimum, maximum and mean equal to that observation's price. The aggregates are
  rounded: for the single observation of price 1.234 the quarterly chart plots the mean
  1.23 and the range from 1.23 to 1.23, not 1.234.
\<close>

theorem C8_counterexample:
  "map Price (frame_rows single_observation) = [617 / 500]
   \<and> map tr_y (fig_data (fst (create_quarterly_chart single_observation)))
       = [[Fin (123 / 100)], [Fin (123 / 100), Fin (123 / 100)]]
   \<and> Fin (123 / 100) \<noteq> Fin (617 / 500)"
  by (simp add: fig_data_quarterly quarterly_data_def quarterly_avg_trace_def
      quarterly_range_trace_def single_observation_def quarter_def agg_min_def agg_max_def
      frame_eval figure_eval number_eval)

text \<open>
  C8 as amended: a monthly bucket with fewer than two observations has exactly one; its
  mean is defined, the observation's price rounded to two decimals, and its standard
  deviation is NaN. A quarterly bucket with a single observation has minimum, maximum
  and mean all equal to that price rounded to two decimals (the price itself when it
  has at most two decimals) and a standard deviation of NaN.
\<close>

theorem C8_single_observation_bucket:
  "(\<forall>r \<in> set (monthly_data df).
      length (filter (\<lambda>x. Year x = m_Year r \<and> Month x = m_Month r) (frame_rows df)) < 2 \<longrightarrow>
      (\<exists>x. filter (\<lambda>x. Year x = m_Year r \<and> Month x = m_Month r) (frame_rows df) = [x]
           \<and> m_AvgPrice r = Fin (round2_real (Price x))
           \<and> m_StdPrice r = NaN))
   \<and> (\<forall>r \<in> set (quarterly_data (frame_rows df) (map (\<lambda>x. quarter (Date x)) (frame_rows df))).
        \<forall>x. filter (\<lambda>x. Year x = q_Year r \<and> quarter (Date x) = q_Quarter r) (frame_rows df) = [x] \<longrightarrow>
          q_MinPrice r = Fin (round2_real (Price x))
          \<and> q_MaxPrice r = Fin (round2_real (Price x))
          \<and> q_AvgPrice r = Fin (round2_real (Price x))
          \<and> q_StdPrice r = NaN
          \<and> (Price x * 100 \<in> \<int> \<longrightarrow>
               q_MinPrice r = Fin (Price x) \<and> q_MaxPrice r = Fin (Price x)
               \<and> q_AvgPrice r = Fin (Price x)))"
proof (intro conjI ballI allI impI)
  fix r
  assume r: "r \<in> set (monthly_data df)"
    and "length (filter (\<lambda>x. Year x = m_Year r \<and> Month x = m_Month r) (frame_rows df)) < 2"
  with monthly_bucket(1) [OF r]
  obtain x where x: "filter (\<lambda>x. Year x = m_Year r \<and> Month x = m_Month r) (frame_rows df) = [x]"
    using length_less_2 by blast
  show "\<exists>x. filter (\<lambda>x. Year x = m_Year r \<and> Month x = m_Month r) (frame_rows df) = [x]
           \<and> m_AvgPrice r = Fin (round2_real (Price x))
           \<and> m_StdPrice r = NaN"
    using monthly_bucket(2,3) [OF r] x by simp
next
  fix r x
  assume r: "r \<in> set (quarterly_data (frame_rows df) (map (\<lambda>x. quarter (Date x)) (frame_rows df)))"
    and x: "filter (\<lambda>x. Year x = q_Year r \<and> quarter (Date x) = q_Quarter r) (frame_rows df) = [x]"
  show "q_MinPrice r = Fin (round2_real (Price x))" "q_MaxPrice r = Fin (round2_real (Price x))"
    "q_AvgPrice r = Fin (round2_real (Price x))" "q_StdPrice r = NaN"
    using quarterly_bucket [OF r] x by simp_all
  assume "Price x * 100 \<in> \<int>"
  then have "round2_real (Price x) = Price x"
    by (rule round2_real_exact)
  then show "q_MinPrice r = Fin (Price x)" "q_MaxPrice r = Fin (Price x)" "q_AvgPrice r = Fin (Price x)"
    using quarterly_bucket [OF r] x by simp_all
qed

theorem C8_witness:
  "length (filter (\<lambda>x. Year x = 2020 \<and> Month x = 2) (frame_rows single_observation)) < 2
   \<and> map m_AvgPrice (monthly_data single_observation) = [Fin (123 / 100)]
   \<and> map m_StdPrice (monthly_data single_observation) = [NaN]
   \<and> filter (\<lambda>x. Year x = 2020 \<and> quarter (Date x) = 1) (frame_rows single_observation)
       = [obs 2020 2 15 46 7 (617 / 500)]
   \<and> map q_MinPrice (quarterly_data (frame_rows single_observation)
         (map (\<lambda>x. quarter (Date x)) (frame_rows single_observation))) = [Fin (123 / 100)]
   \<and> map q_StdPrice (quarterly_data (frame_rows single_observation)
         (map (\<lambda>x. quarter (Date x)) (frame_rows single_observation))) = [NaN]"
proof -
  note th = C8_single_observation_bucket [of single_observation]
  have keys: "map (\<lambda>r. (m_Year r, m_Month r)) (monthly_data single_observation) = [(2020, 2)]"
    by (simp add: monthly_data_def single_observation_def frame_eval)
  then obtain r where rs: "monthly_data single_observation = [r]"
    and r: "m_Year r = 2020" "m_Month r = 2"
    by auto
  have bucket: "filter (\<lambda>x. Year x = 2020 \<and> Month x = 2) (frame_rows single_observation)
      = [obs 2020 2 15 46 7 (617 / 500)]"
    by (simp add: single_observation_def obs_def)
  have "r \<in> set (monthly_data single_observation)"
    by (simp add: rs)
  with th have "length (filter (\<lambda>x. Year x = m_Year r \<and> Month x = m_Month r)
        (frame_rows single_observation)) < 2 \<longrightarrow>
      (\<exists>x. filter (\<lambda>x. Year x = m_Year r \<and> Month x = m_Month r) (frame_rows single_observation) = [x]
           \<and> m_AvgPrice r = Fin (round2_real (Price x))
           \<and> m_StdPrice r = NaN)"
    by blast
  then have "m_AvgPrice r = Fin (round2_real (617 / 500)) \<and> m_StdPrice r = NaN"
    by (simp add: r bucket) (simp add: obs_def)
  then have monthly: "map m_AvgPrice (monthly_data single_observation) = [Fin (123 / 100)]
      \<and> map m_StdPrice (monthly_data single_observation) = [NaN]"
    by (simp add: rs) (simp add: number_eval)
  have qkeys: "map (\<lambda>r. (q_Year r, q_Quarter r)) (quarterly_data (frame_rows single_observation)
         (map (\<lambda>x. quarter (Date x)) (frame_rows single_observation))) = [(2020, 1)]"
    by (simp add: quarterly_data_def single_observation_def quarter_def frame_eval)
  then obtain q where qs: "quarterly_data (frame_rows single_observation)
         (map (\<lambda>x. quarter (Date x)) (frame_rows single_observation)) = [q]"
    and q: "q_Year q = 2020" "q_Quarter q = 1"
    by auto
  have qbucket: "filter (\<lambda>x. Year x = 2020 \<and> quarter (Date x) = 1) (frame_rows single_observation)
      = [obs 2020 2 15 46 7 (617 / 500)]"
    by (simp add: single_observation_def obs_def quarter_def)
  have "q \<in> set (quarterly_data (frame_rows single_observation)
         (map (\<lambda>x. quarter (Date x)) (frame_rows single_observation)))"
    by (simp add: qs)
  with th have "\<forall>x. filter (\<lambda>x. Year x = q_Year q \<and> quarter (Date x) = q_Quarter q)
          (frame_rows single_observation) = [x] \<longrightarrow>
        q_MinPrice q = Fin (round2_real (Price x)) \<and> q_StdPrice q = NaN"
    by blast
  moreover have "filter (\<lambda>x. Year x = q_Year q \<and> quarter (Date x) = q_Quarter q)
          (frame_rows single_observation) = [obs 2020 2 15 46 7 (617 / 500)]"
    unfolding q by (rule qbucket)
  ultimately have "q_MinPrice q = Fin (round2_real (Price (obs 2020 2 15 46 7 (617 / 500))))
      \<and> q_StdPrice q = NaN"
    by blast
  then have "q_MinPrice q = Fin (round2_real (617 / 500)) \<and> q_StdPrice q = NaN"
    by (simp add: obs_def)
  then have quarterly: "map q_MinPrice (quarterly_data (frame_rows single_observation)
         (map (\<lambda>x. quarter (Date x)) (frame_rows single_observation))) = [Fin (123 / 100)]
      \<and> map q_StdPrice (quarterly_data (frame_rows single_observation)
         (map (\<lambda>x. quarter (Date x)) (frame_rows single_observation))) = [NaN]"
    by (simp add: qs) (simp add: number_eval)
  from monthly quarterly bucket qbucket show ?thesis
    by simp
qed

subsection \<open>C10: a selection of years that the dataset does not have\<close>

lemma groupby_Nil [simp]: "groupby key [] = []"
  by (simp add: groupby_def sorted_unique_def)

lemma no_rows:
  assumes "frame_rows F = []"
  shows "fig_data (fst (create_overlay_chart F)) = []"
    and "fig_data (fst (create_monthly_chart F)) = []"
    and "fig_data (fst (create_quarterly_chart F)) = []"
    and "fig_data (fst (create_weekly_chart F)) = []"
    and "stats F = []" and "volatility F = []" and "summary F = []" and "yoy_change F = []"
  using assms
  by (simp_all add: fig_data_overlay fig_data_monthly fig_data_quarterly fig_data_weekly
      stats_def volatility_def summary_def yoy_change_def pct_change_def sorted_unique_def)

lemma fig_annotations_main:
  "fig_annotations (fst (create_overlay_chart F)) = []"
  "fig_annotations (fst (create_monthly_chart F)) = []"
  "fig_annotations (fst (create_quarterly_chart F)) = []"
  "fig_annotations (fst (create_weekly_chart F)) = []"
  by (simp_all add: create_overlay_chart_def create_monthly_chart_def create_quarterly_chart_def
      create_weekly_chart_def Let_def fold_add_trace fold_add_two_traces Figure_def update_layout_def)

text \<open>
  C10 states that for a non-empty selection of years all absent from the dataset every
  chart has zero series. On the example dataset with the year 1999 selected, the summary
  statistics chart has its two bar series, Mean and Median, and the volatility chart its
  two series: the source adds them whatever the data.
\<close>

theorem C10_counterexample:
  "set [1999] \<inter> Year ` set (frame_rows two_years) = {}
   \<and> map tr_name (fig_data (fst (snd (projr (update_charts two_years [1999] ''overlay'')))))
     = [Literal ''Mean'', Literal ''Median'']
   \<and> map tr_name (fig_data (fst (snd (snd (projr (update_charts two_years [1999] ''overlay''))))))
     = [Literal ''Standard Deviation'', Literal ''Range as % of Mean'']"
  by (simp add: update_charts_selected create_summary_stats_chart_def create_volatility_chart_def
      figure_eval Let_def two_years_def obs_def)

text \<open>
  C10 as amended: a non-empty selection never gives the placeholder outputs. When none
  of the selected years occurs in the dataset, the callback returns a main chart with
  zero series (and no placeholder annotation), a summary statistics chart and a
  volatility chart that hold their two fixed series each, with no data point, and a
  summary table with the header row only.
\<close>

theorem C10_selected_years_all_absent:
  assumes "selected_years \<noteq> []"
  shows "update_charts df selected_years comparison_type
           \<noteq> Inr (empty_fig, empty_fig, empty_fig, Div ''No data to display'')
       \<and> (set selected_years \<inter> Year ` set (frame_rows df) = {} \<longrightarrow>
            update_charts df selected_years comparison_type \<noteq> Inl InvalidScheme
          \<and> fig_data (fst (projr (update_charts df selected_years comparison_type))) = []
          \<and> fig_annotations (fst (projr (update_charts df selected_years comparison_type))) = []
          \<and> map (\<lambda>t. (tr_name t, tr_x t, tr_y t))
               (fig_data (fst (snd (projr (update_charts df selected_years comparison_type)))))
              = [(Literal ''Mean'', [], []), (Literal ''Median'', [], [])]
          \<and> map (\<lambda>t. (tr_name t, tr_x t, tr_y t))
               (fig_data (fst (snd (snd (projr (update_charts df selected_years comparison_type))))))
              = [(Literal ''Standard Deviation'', [], []), (Literal ''Range as % of Mean'', [], [])]
          \<and> snd (snd (snd (projr (update_charts df selected_years comparison_type))))
              = Table [table_header])"
proof (intro conjI impI)
  show "update_charts df selected_years comparison_type
           \<noteq> Inr (empty_fig, empty_fig, empty_fig, Div ''No data to display'')"
    by (simp add: update_charts_selected [OF assms] create_summary_table_def)
next
  assume "set selected_years \<inter> Year ` set (frame_rows df) = {}"
  then have rows: "frame_rows (copy (select_rows (\<lambda>r. Year r \<in> set selected_years) df)) = []"
    by (auto simp: filter_empty_conv)
  note empty = no_rows [OF rows]
  show "update_charts df selected_years comparison_type \<noteq> Inl InvalidScheme"
    by (simp add: update_charts_selected [OF assms])
  show "fig_data (fst (projr (update_charts df selected_years comparison_type))) = []"
    by (simp add: update_charts_selected [OF assms] empty)
  show "fig_annotations (fst (projr (update_charts df selected_years comparison_type))) = []"
    by (simp add: update_charts_selected [OF assms] fig_annotations_main)
  show "map (\<lambda>t. (tr_name t, tr_x t, tr_y t))
               (fig_data (fst (snd (projr (update_charts df selected_years comparison_type)))))
              = [(Literal ''Mean'', [], []), (Literal ''Median'', [], [])]"
    by (simp add: update_charts_selected [OF assms] create_summary_stats_chart_def empty
        figure_eval Let_def)
  show "map (\<lambda>t. (tr_name t, tr_x t, tr_y t))
               (fig_data (fst (snd (snd (projr (update_charts df selected_years comparison_type))))))
              = [(Literal ''Standard Deviation'', [], []), (Literal ''Range as % of Mean'', [], [])]"
    by (simp add: update_charts_selected [OF assms] create_volatility_chart_def empty
        figure_eval Let_def)
  show "snd (snd (snd (projr (update_charts df selected_years comparison_type))))
              = Table [table_header]"
    by (simp add: update_charts_selected [OF assms] create_summary_table_def empty)
qed

theorem C10_witness:
  "set [1999, 2000] \<inter> Year ` set (frame_rows two_years) = {}
   \<and> update_charts two_years [1999, 2000] ''monthly''
        \<noteq> Inr (empty_fig, empty_fig, empty_fig, Div ''No data to display'')
   \<and> fig_data (fst (projr (update_charts two_years [1999, 2000] ''monthly''))) = []
   \<and> snd (snd (snd (projr (update_charts two_years [1999, 2000] ''monthly''))))
        = Table [table_header]"
proof -
  have sel: "[1999, 2000] \<noteq> ([] :: int list)"
    by simp
  have absent: "set [1999, 2000] \<inter> Year ` set (frame_rows two_years) = {}"
    by (simp add: two_years_def obs_def)
  from C10_selected_years_all_absent [OF sel, of two_years "''monthly''"] absent
  show ?thesis
    by blast
qed

subsection \<open>The series of the volatility chart\<close>

text \<open>
  What the embedding gives for the second series of the volatility chart: for a year
  with prices \<open>xs\<close>, the range as a percentage of the mean is a number when the mean
  is not zero, and infinity or NaN when it is. That the division raises nothing at a
  zero mean is the arithmetic of numpy's float64, which the embedding takes as given.
\<close>

lemma agg_min_max_nonempty:
  assumes "xs \<noteq> []"
  shows "agg_min xs = Fin (Min (set xs))" and "agg_max xs = Fin (Max (set xs))"
proof -
  from assms obtain x rest where xs: "xs = x # rest"
    by (cases xs) auto
  show "agg_min xs = Fin (Min (set xs))"
    unfolding xs agg_min_def by (simp only: list.case Min.set_eq_fold)
  show "agg_max xs = Fin (Max (set xs))"
    unfolding xs agg_max_def by (simp only: list.case Max.set_eq_fold)
qed

lemma range_percent_nonempty:
  assumes "xs \<noteq> []"
  shows "range_percent xs =
           (if sum_list xs / real (length xs) = 0
            then (if Min (set xs) < Max (set xs) then PosInf else NaN)
            else Fin ((Max (set xs) - Min (set xs)) / (sum_list xs / real (length xs)) * 100))"
proof -
  define mn mx m where "mn = Min (set xs)" and "mx = Max (set xs)"
    and "m = sum_list xs / real (length xs)"
  have "Min (set xs) \<in> set xs"
    using assms by (intro Min_in) simp_all
  then have "mn \<le> mx"
    unfolding mn_def mx_def by (intro Max_ge) simp_all
  moreover have "range_percent xs = fmul (fdiv (fsub (Fin mx) (Fin mn)) (Fin m)) (Fin 100)"
    using assms by (simp add: range_percent_def agg_min_max_nonempty agg_mean_def mn_def mx_def m_def)
  ultimately have "range_percent xs =
      (if m = 0 then (if mn < mx then PosInf else NaN) else Fin ((mx - mn) / m * 100))"
    by (simp add: fsub_def signed_inf_def)
  then show ?thesis
    by (simp only: mn_def mx_def m_def)
qed

lemma volatility_columns:
  "map v_RangePercent (volatility df) =
     map (\<lambda>y. round2 (range_percent (map Price (filter (\<lambda>r. Year r = y) (frame_rows df)))))
       (sorted_unique (map Year (frame_rows df)))"
  "map v_StdDev (volatility df) =
     map (\<lambda>y. round2 (agg_std (map Price (filter (\<lambda>r. Year r = y) (frame_rows df)))))
       (sorted_unique (map Year (frame_rows df)))"
  by (simp_all add: volatility_def groupby_def comp_def)

lemma fig_data_volatility:
  "fig_data (create_volatility_chart df) =
     [(go_Bar (map v_Year (volatility df)) (map v_StdDev (volatility df))
         (Literal ''Standard Deviation''))
      \<lparr>tr_marker_color := Some ''coral'', tr_yaxis := Some ''y''\<rparr>,
      (go_Scatter (map v_Year (volatility df)) (map v_RangePercent (volatility df))
         (Literal ''Range as % of Mean''))
      \<lparr>tr_mode := Some ''lines+markers'', tr_marker_color := Some ''darkred'',
        tr_line_color := Some ''darkred'', tr_yaxis := Some ''y2''\<rparr>]"
  by (simp add: create_volatility_chart_def Let_def Figure_def add_trace_def)

subsection \<open>C7: colours by position\<close>

lemma map_enumerate_snd: "map (\<lambda>p. f (snd p)) (enumerate n ys) = map f ys"
  by (induction ys arbitrary: n) simp_all

lemma map_enumerate_fst: "map (\<lambda>p. f (fst p)) (enumerate n ys) = map f [n..<n + length ys]"
proof -
  have "map (\<lambda>p. f (fst p)) (enumerate n ys) = map f (map fst (enumerate n ys))"
    by (simp only: map_map comp_def)
  then show ?thesis
    by (simp only: map_fst_enumerate)
qed

lemma tr_line_color_traces [simp]:
  "tr_line_color (overlay_trace df i year) = Some (Set1 ! (i mod length Set1))"
  "tr_line_color (monthly_trace md i year) = Some (Set1 ! (i mod length Set1))"
  "tr_line_color (weekly_trace wd i year) = Some (Set1 ! (i mod length Set1))"
  "tr_line_color (quarterly_avg_trace qd i year) = Some (Set1 ! (i mod length Set1))"
  "tr_line_color (quarterly_range_trace qd i year) = Some ''rgba(255,255,255,0)''"
  "tr_fillcolor (quarterly_avg_trace qd i year) = None"
  "tr_fillcolor (quarterly_range_trace qd i year) = Some (rgba_fill (Set1 ! (i mod length Set1)))"
  by (simp_all add: overlay_trace_def monthly_trace_def weekly_trace_def quarterly_avg_trace_def
      quarterly_range_trace_def go_Scatter_def Let_def)

lemma line_traces:
  "map tr_name (fig_data (fst (create_overlay_chart F))) = map Str_year (sorted_unique (map Year (frame_rows F)))"
  "map tr_name (fig_data (fst (create_monthly_chart F))) = map Str_year (sorted_unique (map Year (frame_rows F)))"
  "map tr_name (fig_data (fst (create_weekly_chart F))) = map Str_year (sorted_unique (map Year (frame_rows F)))"
  "map tr_line_color (fig_data (fst (create_overlay_chart F))) =
     map (\<lambda>i. Some (Set1 ! (i mod length Set1))) [0..<length (sorted_unique (map Year (frame_rows F)))]"
  "map tr_line_color (fig_data (fst (create_monthly_chart F))) =
     map (\<lambda>i. Some (Set1 ! (i mod length Set1))) [0..<length (sorted_unique (map Year (frame_rows F)))]"
  "map tr_line_color (fig_data (fst (create_weekly_chart F))) =
     map (\<lambda>i. Some (Set1 ! (i mod length Set1))) [0..<length (sorted_unique (map Year (frame_rows F)))]"
  by (simp_all add: fig_data_overlay fig_data_monthly fig_data_weekly comp_def case_prod_unfold
      map_enumerate_snd [of Str_year]
      map_enumerate_fst [of "\<lambda>i. Some (Set1 ! (i mod length Set1))" 0, simplified])


lemma quarterly_traces:
  "map tr_name (fig_data (fst (create_quarterly_chart F))) =
     concat (map (\<lambda>y. [Year_Avg y, Year_Range y]) (sorted_unique (map Year (frame_rows F))))"
  "map tr_line_color (fig_data (fst (create_quarterly_chart F))) =
     concat (map (\<lambda>i. [Some (Set1 ! (i mod length Set1)), Some ''rgba(255,255,255,0)''])
       [0..<length (sorted_unique (map Year (frame_rows F)))])"
  "map tr_fillcolor (fig_data (fst (create_quarterly_chart F))) =
     concat (map (\<lambda>i. [None, Some (rgba_fill (Set1 ! (i mod length Set1)))])
       [0..<length (sorted_unique (map Year (frame_rows F)))])"
  by (simp_all add: fig_data_quarterly map_concat comp_def case_prod_unfold
      map_enumerate_snd [of "\<lambda>y. [Year_Avg y, Year_Range y]"]
      map_enumerate_fst [of "\<lambda>i. [Some (Set1 ! (i mod length Set1)), Some ''rgba(255,255,255,0)'']" 0, simplified]
      map_enumerate_fst [of "\<lambda>i. [None, Some (rgba_fill (Set1 ! (i mod length Set1)))]" 0, simplified])

lemma rgba_fill_first: "rgba_fill ''rgb(228,26,28)'' = ''rgba(228,26,28, 0.2)''"
  by (simp add: rgba_fill_def replace.simps)

text \<open>
  C7 states that the colour of a year's series is the palette entry at the position of
  the year in the sorted list of the selected years. The charts number the years of the
  filtered rows instead. With 2019 and 2021 selected on the example dataset, which has
  no row of 2019, the only series is the one of 2021 and it has the first colour of the
  palette; 2021 is at position 1 of the sorted selection, which is the second colour.
\<close>

theorem C7_counterexample:
  "map tr_name (fig_data (fst (projr (update_charts two_years [2019, 2021] ''overlay''))))
     = [Str_year 2021]
   \<and> map tr_line_color (fig_data (fst (projr (update_charts two_years [2019, 2021] ''overlay''))))
     = [Some ''rgb(228,26,28)'']
   \<and> sort [2019, 2021 :: int] ! 1 = 2021
   \<and> Set1 ! (1 mod length Set1) = ''rgb(55,126,184)''"
  by (simp add: update_charts_selected line_traces two_years_def frame_eval Set1_def)

text \<open>
  C7 as amended: for every non-empty selection and every comparison type, the series of
  the main chart are those of the selected years that occur in the dataset, in ascending
  order, and the line of the series at position \<open>i\<close> of that list has the palette
  entry \<open>i\<close> modulo the palette length (9). In the quarterly chart that holds for the
  average line of each year; the range series next to it has a transparent line and the
  same palette entry, with opacity 0.2, as its fill colour. When every selected year
  occurs in the dataset the list is the sorted list of the selected years.
\<close>

theorem C7_palette_by_position:
  fixes df :: frame and selected_years :: "int list" and comparison_type :: string
  defines "years \<equiv>
    sorted_unique (map Year (filter (\<lambda>r. Year r \<in> set selected_years) (frame_rows df)))"
  defines "main \<equiv> fst (projr (update_charts df selected_years comparison_type))"
  assumes "selected_years \<noteq> []"
  shows "sorted years \<and> distinct years
       \<and> set years = set selected_years \<inter> Year ` set (frame_rows df)
       \<and> (set selected_years \<subseteq> Year ` set (frame_rows df) \<longrightarrow>
            years = sorted_unique selected_years)
       \<and> (comparison_type \<noteq> ''quarterly'' \<longrightarrow>
            map tr_name (fig_data main) = map Str_year years
          \<and> map tr_line_color (fig_data main) =
              map (\<lambda>i. Some (Set1 ! (i mod length Set1))) [0..<length years])
       \<and> (comparison_type = ''quarterly'' \<longrightarrow>
            map tr_name (fig_data main) = concat (map (\<lambda>y. [Year_Avg y, Year_Range y]) years)
          \<and> map tr_line_color (fig_data main) =
              concat (map (\<lambda>i. [Some (Set1 ! (i mod length Set1)), Some ''rgba(255,255,255,0)''])
                [0..<length years])
          \<and> map tr_fillcolor (fig_data main) =
              concat (map (\<lambda>i. [None, Some (rgba_fill (Set1 ! (i mod length Set1)))])
                [0..<length years]))
       \<and> length Set1 = 9"
proof -
  have set_years: "set years = set selected_years \<inter> Year ` set (frame_rows df)"
    by (auto simp: years_def)
  have all_present: "years = sorted_unique selected_years"
    if "set selected_years \<subseteq> Year ` set (frame_rows df)"
  proof -
    from that set_years have "set years = set selected_years"
      by blast
    then have "sorted_unique years = sorted_unique selected_years"
      by (rule sorted_unique_cong)
    moreover have "sorted_unique years = years"
      unfolding years_def
      by (simp add: sorted_unique_def sorted_sort_id distinct_remdups_id)
    ultimately show ?thesis by simp
  qed
  have main: "main = fst (if comparison_type = ''overlay'' then
                       create_overlay_chart (copy (select_rows (\<lambda>r. Year r \<in> set selected_years) df))
                     else if comparison_type = ''monthly'' then
                       create_monthly_chart (copy (select_rows (\<lambda>r. Year r \<in> set selected_years) df))
                     else if comparison_type = ''quarterly'' then
                       create_quarterly_chart (copy (select_rows (\<lambda>r. Year r \<in> set selected_years) df))
                     else create_weekly_chart (copy (select_rows (\<lambda>r. Year r \<in> set selected_years) df)))"
    unfolding main_def update_charts_selected [OF assms(3)] by (simp only: sum.sel fst_conv)
  have lines: "map tr_name (fig_data main) = map Str_year years
      \<and> map tr_line_color (fig_data main) =
              map (\<lambda>i. Some (Set1 ! (i mod length Set1))) [0..<length years]"
    if "comparison_type \<noteq> ''quarterly''"
    using that unfolding main years_def by (simp add: line_traces)
  have quarterly: "map tr_name (fig_data main) = concat (map (\<lambda>y. [Year_Avg y, Year_Range y]) years)
          \<and> map tr_line_color (fig_data main) =
              concat (map (\<lambda>i. [Some (Set1 ! (i mod length Set1)), Some ''rgba(255,255,255,0)''])
                [0..<length years])
          \<and> map tr_fillcolor (fig_data main) =
              concat (map (\<lambda>i. [None, Some (rgba_fill (Set1 ! (i mod length Set1)))])
                [0..<length years])"
    if "comparison_type = ''quarterly''"
    using that unfolding main years_def by (simp add: quarterly_traces)
  have "sorted years" "distinct years"
    by (simp_all add: years_def)
  moreover have "length Set1 = 9"
    by (simp add: Set1_def)
  ultimately show ?thesis
    using set_years all_present lines quarterly by (simp only: simp_thms) blast
qed

lemma rgba_fill_second: "rgba_fill ''rgb(55,126,184)'' = ''rgba(55,126,184, 0.2)''"
  by (simp add: rgba_fill_def replace.simps)

theorem C7_witness:
  "sorted_unique (map Year (filter (\<lambda>r. Year r \<in> set [2021, 2020]) (frame_rows two_years)))
     = [2020, 2021]
   \<and> map tr_name (fig_data (fst (projr (update_charts two_years [2021, 2020] ''quarterly''))))
     = [Year_Avg 2020, Year_Range 2020, Year_Avg 2021, Year_Range 2021]
   \<and> map tr_line_color (fig_data (fst (projr (update_charts two_years [2021, 2020] ''quarterly''))))
     = [Some ''rgb(228,26,28)'', Some ''rgba(255,255,255,0)'',
        Some ''rgb(55,126,184)'', Some ''rgba(255,255,255,0)'']
   \<and> map tr_fillcolor (fig_data (fst (projr (update_charts two_years [2021, 2020] ''quarterly''))))
     = [None, Some ''rgba(228,26,28, 0.2)'', None, Some ''rgba(55,126,184, 0.2)'']
   \<and> map tr_name (fig_data (fst (projr (update_charts two_years [2021, 2020] ''monthly''))))
     = [Str_year 2020, Str_year 2021]
   \<and> map tr_line_color (fig_data (fst (projr (update_charts two_years [2021, 2020] ''monthly''))))
     = [Some ''rgb(228,26,28)'', Some ''rgb(55,126,184)'']"
proof -
  have sel: "[2021, 2020] \<noteq> ([] :: int list)"
    by simp
  have years: "sorted_unique (map Year (filter (\<lambda>r. Year r \<in> set [2021, 2020]) (frame_rows two_years)))
     = [2020, 2021]"
    by (simp add: two_years_def frame_eval)
  have upt: "[0..<length [2020, 2021 :: int]] = [0, 1]"
    by (simp add: upt_rec)
  have colors: "length Set1 = 9" "Set1 ! 0 = ''rgb(228,26,28)''"
    "Set1 ! 1 = ''rgb(55,126,184)''" "Set1 ! Suc 0 = ''rgb(55,126,184)''"
    by (simp_all add: Set1_def)
  have q: "''quarterly'' = ''quarterly''" and m: "''monthly'' \<noteq> ''quarterly''"
    by simp_all
  note quarterly = C7_palette_by_position [OF sel, of two_years "''quarterly''", unfolded years upt,
      THEN conjunct2, THEN conjunct2, THEN conjunct2, THEN conjunct2, THEN conjunct2,
      THEN conjunct1, rule_format, OF q]
  note monthly = C7_palette_by_position [OF sel, of two_years "''monthly''", unfolded years upt,
      THEN conjunct2, THEN conjunct2, THEN conjunct2, THEN conjunct2, THEN conjunct1,
      rule_format, OF m]
  from quarterly monthly years show ?thesis
    by (simp add: colors rgba_fill_first rgba_fill_second)
qed

subsection \<open>C4: the summary table\<close>

lemma length_pct_change_from [simp]: "length (pct_change_from prev vs) = length vs"
  by (induction vs arbitrary: prev) simp_all

lemma length_pct_change [simp]: "length (pct_change vs) = length vs"
  by (cases vs) (simp_all add: pct_change_def)

lemma pct_change_from_nth:
  "i < length vs \<Longrightarrow>
     pct_change_from prev vs ! i = fsub (fdiv (vs ! i) (if i = 0 then prev else vs ! (i - 1))) (Fin 1)"
proof (induction vs arbitrary: prev i)
  case Nil
  then show ?case by simp
next
  case (Cons v vs)
  show ?case
  proof (cases i)
    case 0
    then show ?thesis by simp
  next
    case (Suc j)
    with Cons.prems have "j < length vs"
      by simp
    from Cons.IH [OF this, of v] Suc show ?thesis
      by (cases j) simp_all
  qed
qed

lemma pct_change_nth:
  assumes "0 < i" and "i < length vs"
  shows "pct_change vs ! i = fsub (fdiv (vs ! i) (vs ! (i - 1))) (Fin 1)"
proof -
  from assms obtain v rest where vs: "vs = v # rest"
    by (cases vs) auto
  from assms obtain j where i: "i = Suc j"
    by (cases i) auto
  with assms vs have "j < length rest"
    by simp
  from pct_change_from_nth [OF this, of v] show ?thesis
    by (cases j) (simp_all add: vs i pct_change_def)
qed

lemma pct_change_first: "vs \<noteq> [] \<Longrightarrow> pct_change vs ! 0 = NaN"
  by (cases vs) (simp_all add: pct_change_def)

lemma percent_change_formula:
  "fmul (fsub (fdiv (Fin a) (Fin b)) (Fin 1)) (Fin 100)
     = fmul (fdiv (fsub (Fin a) (Fin b)) (Fin b)) (Fin 100)"
  by (simp add: fsub_def signed_inf_def field_simps)

lemma length_yoy_change [simp]: "length (yoy_change df) = length (summary df)"
  by (simp add: yoy_change_def)

lemma s_Mean_finite:
  assumes "i < length (summary df)"
  shows "\<exists>a. s_Mean (summary df ! i) = Fin a"
proof -
  from assms have "summary df ! i \<in> set (summary df)"
    by simp
  then have "is_finite (s_Mean (summary df ! i))"
    using summary_fields(1) by blast
  then show ?thesis
    by (cases "s_Mean (summary df ! i)") simp_all
qed

lemma yoy_change_first: "summary df \<noteq> [] \<Longrightarrow> yoy_change df ! 0 = NaN"
  by (simp add: yoy_change_def pct_change_first)

lemma yoy_change_nth:
  assumes "0 < i" and "i < length (summary df)"
  shows "yoy_change df ! i =
     round2 (fmul (fdiv (fsub (s_Mean (summary df ! i)) (s_Mean (summary df ! (i - 1))))
                     (s_Mean (summary df ! (i - 1)))) (Fin 100))"
proof -
  from assms have prev: "i - 1 < length (summary df)"
    by simp
  from s_Mean_finite [OF assms(2)] obtain a where a: "s_Mean (summary df ! i) = Fin a"
    by blast
  from s_Mean_finite [OF prev] obtain b where b: "s_Mean (summary df ! (i - 1)) = Fin b"
    by blast
  have "yoy_change df ! i =
      round2 (fmul (pct_change (map s_Mean (summary df)) ! i) (Fin 100))"
    using assms by (simp add: yoy_change_def)
  also have "pct_change (map s_Mean (summary df)) ! i = fsub (fdiv (Fin a) (Fin b)) (Fin 1)"
  proof -
    have len: "i < length (map s_Mean (summary df))"
      using assms(2) by simp
    have ni: "map s_Mean (summary df) ! i = Fin a"
      using nth_map [OF assms(2), of s_Mean] a by simp
    have np: "map s_Mean (summary df) ! (i - 1) = Fin b"
      using nth_map [OF prev, of s_Mean] b by simp
    show ?thesis
      unfolding pct_change_nth [OF assms(1) len] ni np ..
  qed
  finally show ?thesis
    by (simp only: a b percent_change_formula)
qed

lemma table_row_cells:
  "length (table_row r yoy) = 8"
  "table_row r yoy ! 0 = Td (Number (Fin (of_int (s_Year r)))) None"
  "table_row r yoy ! 7 =
     (if yoy = NaN then Td (Txt ''-'') None
      else Td (Fmt2f_percent yoy)
             (Some (if fpos yoy then ''green'' else if fnegative yoy then ''red'' else ''black'')))"
  by (simp_all add: table_row_def row_values_def table_cell_def notna_def Let_def)

lemma summary_row_mean:
  assumes "r \<in> set (summary df)"
  shows "map Price (filter (\<lambda>x. Year x = s_Year r) (frame_rows df)) \<noteq> []
       \<and> s_Mean r =
           Fin (round2_real
                 (sum_list (map Price (filter (\<lambda>x. Year x = s_Year r) (frame_rows df)))
                  / real (length (filter (\<lambda>x. Year x = s_Year r) (frame_rows df)))))"
  using assms
  by (auto simp: summary_def groupby_def agg_mean_def filter_empty_conv)

text \<open>
  C4 states that for every non-empty selection the summary table has one row per
  selected year, and that the change of a row is computed from the means of the two
  years. Neither holds as stated. A selected year without observations has no group
  and so no row: on the dataset of the single observation of 2020, with the two years
  2019 and 2020 selected, the table is the header and the one row of 2020. And the
  change is computed from the means as the rows show them, after their rounding: with
  one price of 100.004 in 2020 and one of 110.006 in 2021 the rows show the means 100.00
  and 110.01 and the change 10.01, where the means themselves give 10.00.
\<close>

theorem C4_counterexample:
  "snd (snd (snd (projr (update_charts single_observation [2019, 2020] ''overlay'')))) =
     Table [table_header,
            [Td (Number (Fin 2020)) None, Td (Fmt2f (Fin 1)) None,
             Td (Fmt2f (Fin (123 / 100))) None, Td (Fmt2f (Fin (123 / 100))) None,
             Td (Txt ''-'') None, Td (Fmt2f (Fin (123 / 100))) None,
             Td (Fmt2f (Fin (123 / 100))) None, Td (Txt ''-'') None]]
   \<and> length (remdups [2019, 2020 :: int]) = 2
   \<and> map Price (frame_rows close_means) = [25001 / 250, 55003 / 500]
   \<and> snd (snd (snd (projr (update_charts close_means [2020, 2021] ''overlay'')))) =
     Table [table_header,
            [Td (Number (Fin 2020)) None, Td (Fmt2f (Fin 1)) None,
             Td (Fmt2f (Fin 100)) None, Td (Fmt2f (Fin 100)) None,
             Td (Txt ''-'') None, Td (Fmt2f (Fin 100)) None,
             Td (Fmt2f (Fin 100)) None, Td (Txt ''-'') None],
            [Td (Number (Fin 2021)) None, Td (Fmt2f (Fin 1)) None,
             Td (Fmt2f (Fin (11001 / 100))) None, Td (Fmt2f (Fin (11001 / 100))) None,
             Td (Txt ''-'') None, Td (Fmt2f (Fin (11001 / 100))) None,
             Td (Fmt2f (Fin (11001 / 100))) None,
             Td (Fmt2f_percent (Fin (1001 / 100))) (Some ''green'')]]
   \<and> round2_real ((55003 / 500 - 25001 / 250) / (25001 / 250) * 100) = 10
   \<and> Fin (1001 / 100) \<noteq> Fin 10"
proof -
  have absent: "snd (snd (snd (projr (update_charts single_observation [2019, 2020] ''overlay'')))) =
     Table [table_header,
            [Td (Number (Fin 2020)) None, Td (Fmt2f (Fin 1)) None,
             Td (Fmt2f (Fin (123 / 100))) None, Td (Fmt2f (Fin (123 / 100))) None,
             Td (Txt ''-'') None, Td (Fmt2f (Fin (123 / 100))) None,
             Td (Fmt2f (Fin (123 / 100))) None, Td (Txt ''-'') None]]"
    by (simp add: update_charts_selected create_summary_table_def summary_def yoy_change_def
        pct_change_def table_row_def row_values_def table_cell_def notna_def agg_median_def
        single_observation_def frame_eval number_eval)
  have rounded: "snd (snd (snd (projr (update_charts close_means [2020, 2021] ''overlay'')))) =
     Table [table_header,
            [Td (Number (Fin 2020)) None, Td (Fmt2f (Fin 1)) None,
             Td (Fmt2f (Fin 100)) None, Td (Fmt2f (Fin 100)) None,
             Td (Txt ''-'') None, Td (Fmt2f (Fin 100)) None,
             Td (Fmt2f (Fin 100)) None, Td (Txt ''-'') None],
            [Td (Number (Fin 2021)) None, Td (Fmt2f (Fin 1)) None,
             Td (Fmt2f (Fin (11001 / 100))) None, Td (Fmt2f (Fin (11001 / 100))) None,
             Td (Txt ''-'') None, Td (Fmt2f (Fin (11001 / 100))) None,
             Td (Fmt2f (Fin (11001 / 100))) None,
             Td (Fmt2f_percent (Fin (1001 / 100))) (Some ''green'')]]"
    by (simp add: update_charts_selected create_summary_table_def summary_def yoy_change_def
        pct_change_def fsub_def table_row_def row_values_def table_cell_def notna_def
        agg_median_def close_means_def frame_eval number_eval)
  have true_means: "round2_real ((55003 / 500 - 25001 / 250) / (25001 / 250) * 100) = 10"
    by (simp add: number_eval)
  have prices: "map Price (frame_rows close_means) = [25001 / 250, 55003 / 500]"
    by (simp add: close_means_def obs_def)
  from absent rounded true_means prices show ?thesis
    by simp
qed

text \<open>
  C4 as amended: for every non-empty selection the summary table is the header followed
  by one row per selected year that occurs in the dataset, in ascending order of the
  year (one row per selected year when all of them occur). The mean of a row is the
  mean of the prices of its year, rounded to two decimals. The change of the first row
  is NaN and shown as \<^verbatim>\<open>-\<close>. For every later row it is
  \<open>(m[y] - m[previous]) / m[previous] * 100\<close> rounded to two decimals, where \<open>m\<close> is
  that rounded mean and the previous row is the one just above; the division is the one
  of floating-point numbers, so a previous mean of zero gives an infinite change or NaN.
  A change that is not NaN is shown as a percentage, coloured green when positive, red
  when negative and black when zero (the flags increase, decrease and neutral); NaN is
  shown as \<^verbatim>\<open>-\<close>.
\<close>

theorem C4_summary_table:
  fixes df :: frame and selected_years :: "int list" and comparison_type :: string
  defines "S \<equiv> summary (copy (select_rows (\<lambda>r. Year r \<in> set selected_years) df))"
  defines "Y \<equiv> yoy_change (copy (select_rows (\<lambda>r. Year r \<in> set selected_years) df))"
  assumes "selected_years \<noteq> []"
  shows "snd (snd (snd (projr (update_charts df selected_years comparison_type))))
           = Table (table_header # map2 table_row S Y)
       \<and> length Y = length S
       \<and> sorted (map s_Year S) \<and> distinct (map s_Year S)
       \<and> set (map s_Year S) = set selected_years \<inter> Year ` set (frame_rows df)
       \<and> (set selected_years \<subseteq> Year ` set (frame_rows df) \<longrightarrow>
            map s_Year S = sorted_unique selected_years)
       \<and> (\<forall>i < length S.
            map Price (filter (\<lambda>r. Year r = s_Year (S ! i)) (frame_rows df)) \<noteq> []
          \<and> s_Mean (S ! i) =
              Fin (round2_real
                    (sum_list (map Price (filter (\<lambda>r. Year r = s_Year (S ! i)) (frame_rows df)))
                     / real (length (filter (\<lambda>r. Year r = s_Year (S ! i)) (frame_rows df))))))
       \<and> (\<forall>i < length S.
            table_row (S ! i) (Y ! i) ! 0 = Td (Number (Fin (of_int (s_Year (S ! i))))) None
          \<and> table_row (S ! i) (Y ! i) ! 7 =
              (if Y ! i = NaN then Td (Txt ''-'') None
               else Td (Fmt2f_percent (Y ! i))
                      (Some (if fpos (Y ! i) then ''green''
                             else if fnegative (Y ! i) then ''red'' else ''black''))))
       \<and> (S \<noteq> [] \<longrightarrow> Y ! 0 = NaN)
       \<and> (\<forall>i. 0 < i \<and> i < length S \<longrightarrow>
            Y ! i = round2 (fmul (fdiv (fsub (s_Mean (S ! i)) (s_Mean (S ! (i - 1))))
                                   (s_Mean (S ! (i - 1)))) (Fin 100)))
       \<and> (\<forall>i a b. 0 < i \<and> i < length S \<and> s_Mean (S ! i) = Fin a
                  \<and> s_Mean (S ! (i - 1)) = Fin b \<and> b \<noteq> 0 \<longrightarrow>
            Y ! i = Fin (round2_real ((a - b) / b * 100)))"
proof -
  have table: "snd (snd (snd (projr (update_charts df selected_years comparison_type))))
           = Table (table_header # map2 table_row S Y)"
    unfolding update_charts_selected [OF assms(3)] S_def Y_def
    by (simp add: create_summary_table_def)
  have len: "length Y = length S"
    by (simp add: S_def Y_def)
  have years: "map s_Year S =
      sorted_unique (map Year (filter (\<lambda>r. Year r \<in> set selected_years) (frame_rows df)))"
    by (simp add: S_def map_Year_summary)
  have ordered: "sorted (map s_Year S)" "distinct (map s_Year S)"
    by (simp_all add: years)
  have set_years: "set (map s_Year S) = set selected_years \<inter> Year ` set (frame_rows df)"
    unfolding years by auto
  have all_present: "map s_Year S = sorted_unique selected_years"
    if "set selected_years \<subseteq> Year ` set (frame_rows df)"
  proof -
    from that set_years have "set (map s_Year S) = set selected_years"
      by blast
    then have "sorted_unique (map s_Year S) = sorted_unique selected_years"
      by (rule sorted_unique_cong)
    moreover have "sorted_unique (map s_Year S) = map s_Year S"
      unfolding years by (simp add: sorted_unique_def sorted_sort_id distinct_remdups_id)
    ultimately show ?thesis by simp
  qed
  have first: "Y ! 0 = NaN" if "S \<noteq> []"
    using that by (simp add: S_def Y_def yoy_change_first)
  have later: "Y ! i = round2 (fmul (fdiv (fsub (s_Mean (S ! i)) (s_Mean (S ! (i - 1))))
                                   (s_Mean (S ! (i - 1)))) (Fin 100))"
    if "0 < i \<and> i < length S" for i
    using that unfolding S_def Y_def by (intro yoy_change_nth) simp_all
  have finite: "Y ! i = Fin (round2_real ((a - b) / b * 100))"
    if "0 < i \<and> i < length S \<and> s_Mean (S ! i) = Fin a \<and> s_Mean (S ! (i - 1)) = Fin b \<and> b \<noteq> 0"
    for i a b
    using later [of i] that by (simp add: fsub_def)
  have all_present': "set selected_years \<subseteq> Year ` set (frame_rows df) \<longrightarrow>
            map s_Year S = sorted_unique selected_years"
    using all_present by (rule impI)
  have means: "\<forall>i < length S.
            map Price (filter (\<lambda>r. Year r = s_Year (S ! i)) (frame_rows df)) \<noteq> []
          \<and> s_Mean (S ! i) =
              Fin (round2_real
                    (sum_list (map Price (filter (\<lambda>r. Year r = s_Year (S ! i)) (frame_rows df)))
                     / real (length (filter (\<lambda>r. Year r = s_Year (S ! i)) (frame_rows df)))))"
  proof (intro allI impI)
    fix i
    assume "i < length S"
    then have member: "S ! i \<in> set S"
      by simp
    then have "s_Year (S ! i) \<in> set (map s_Year S)"
      by simp
    with set_years have "s_Year (S ! i) \<in> set selected_years"
      by blast
    then have rows: "filter (\<lambda>r. Year r = s_Year (S ! i))
          (frame_rows (copy (select_rows (\<lambda>r. Year r \<in> set selected_years) df)))
        = filter (\<lambda>r. Year r = s_Year (S ! i)) (frame_rows df)"
      by (auto simp: filter_filter intro: filter_cong)
    from summary_row_mean [OF member [unfolded S_def], folded S_def] rows
    show "map Price (filter (\<lambda>r. Year r = s_Year (S ! i)) (frame_rows df)) \<noteq> []
          \<and> s_Mean (S ! i) =
              Fin (round2_real
                    (sum_list (map Price (filter (\<lambda>r. Year r = s_Year (S ! i)) (frame_rows df)))
                     / real (length (filter (\<lambda>r. Year r = s_Year (S ! i)) (frame_rows df)))))"
      by simp
  qed
  have cells: "\<forall>i < length S.
            table_row (S ! i) (Y ! i) ! 0 = Td (Number (Fin (of_int (s_Year (S ! i))))) None
          \<and> table_row (S ! i) (Y ! i) ! 7 =
              (if Y ! i = NaN then Td (Txt ''-'') None
               else Td (Fmt2f_percent (Y ! i))
                      (Some (if fpos (Y ! i) then ''green''
                             else if fnegative (Y ! i) then ''red'' else ''black'')))"
    by (simp only: table_row_cells simp_thms)
  have first': "S \<noteq> [] \<longrightarrow> Y ! 0 = NaN"
    using first by (rule impI)
  have later': "\<forall>i. 0 < i \<and> i < length S \<longrightarrow>
            Y ! i = round2 (fmul (fdiv (fsub (s_Mean (S ! i)) (s_Mean (S ! (i - 1))))
                                   (s_Mean (S ! (i - 1)))) (Fin 100))"
    using later by (intro allI impI)
  have finite': "\<forall>i a b. 0 < i \<and> i < length S \<and> s_Mean (S ! i) = Fin a
                  \<and> s_Mean (S ! (i - 1)) = Fin b \<and> b \<noteq> 0 \<longrightarrow>
            Y ! i = Fin (round2_real ((a - b) / b * 100))"
    using finite by (intro allI impI)
  show ?thesis
    by (intro conjI) (rule table len ordered set_years all_present' means cells first' later' finite')+
qed

theorem C4_witness:
  "map s_Year (summary (copy (select_rows (\<lambda>r. Year r \<in> set [2021, 2020]) two_years))) = [2020, 2021]
   \<and> map s_Mean (summary (copy (select_rows (\<lambda>r. Year r \<in> set [2021, 2020]) two_years))) = [Fin 15, Fin 40]
   \<and> s_Mean (summary (copy (select_rows (\<lambda>r. Year r \<in> set [2021, 2020]) two_years)) ! 1)
       = Fin (round2_real ((30 + 50) / 2))
   \<and> yoy_change (copy (select_rows (\<lambda>r. Year r \<in> set [2021, 2020]) two_years)) ! 0 = NaN
   \<and> yoy_change (copy (select_rows (\<lambda>r. Year r \<in> set [2021, 2020]) two_years)) ! 1 = Fin (16667 / 100)
   \<and> table_row (summary (copy (select_rows (\<lambda>r. Year r \<in> set [2021, 2020]) two_years)) ! 0) (yoy_change (copy (select_rows (\<lambda>r. Year r \<in> set [2021, 2020]) two_years)) ! 0) ! 7 = Td (Txt ''-'') None
   \<and> table_row (summary (copy (select_rows (\<lambda>r. Year r \<in> set [2021, 2020]) two_years)) ! 1) (yoy_change (copy (select_rows (\<lambda>r. Year r \<in> set [2021, 2020]) two_years)) ! 1) ! 7
       = Td (Fmt2f_percent (Fin (16667 / 100))) (Some ''green'')"
proof -
  define F where "F = (copy (select_rows (\<lambda>r. Year r \<in> set [2021, 2020]) two_years))"
  have sel: "[2021, 2020] \<noteq> ([] :: int list)"
    by simp
  note th = C4_summary_table [OF sel, of two_years "''overlay''", folded F_def]
  note rest = th [THEN conjunct2, THEN conjunct2, THEN conjunct2, THEN conjunct2,
      THEN conjunct2, THEN conjunct2]
  note row_means = rest [THEN conjunct1, rule_format]
  note cells = rest [THEN conjunct2, THEN conjunct1, rule_format]
  note first = rest [THEN conjunct2, THEN conjunct2, THEN conjunct1, rule_format]
  note finite = rest [THEN conjunct2, THEN conjunct2, THEN conjunct2, THEN conjunct2,
      rule_format]
  have years: "map s_Year (summary F) = [2020, 2021]"
    unfolding F_def by (simp add: summary_def two_years_def frame_eval)
  have means: "map s_Mean (summary F) = [Fin 15, Fin 40]"
    unfolding F_def by (simp add: summary_def two_years_def frame_eval number_eval)
  from years have len: "length (summary F) = 2"
    by (metis length_map length_Cons list.size(3) numeral_2_eq_2)
  then have nonempty: "summary F \<noteq> []" and i0: "0 < length (summary F)"
    and i1: "1 < length (summary F)"
    by auto
  have m0: "s_Mean (summary F ! (1 - 1)) = Fin 15"
    using nth_map [OF i0, of s_Mean] means by simp
  have m1: "s_Mean (summary F ! 1) = Fin 40"
    using nth_map [OF i1, of s_Mean] means by simp
  have y0: "yoy_change F ! 0 = NaN"
    by (rule first [OF nonempty])
  have "yoy_change F ! 1 = Fin (round2_real ((40 - 15) / 15 * 100))"
  proof (rule finite [of 1 40 15], intro conjI)
    show "0 < (1 :: nat)" and "(15 :: real) \<noteq> 0"
      by simp_all
    show "1 < length (summary F)"
      by (rule i1)
    show "s_Mean (summary F ! 1) = Fin 40"
      by (rule m1)
    show "s_Mean (summary F ! (1 - 1)) = Fin 15"
      by (rule m0)
  qed
  then have y1: "yoy_change F ! 1 = Fin (16667 / 100)"
    by (simp add: number_eval)
  have c0: "table_row (summary F ! 0) (yoy_change F ! 0) ! 7 = Td (Txt ''-'') None"
    using cells [OF i0] by (simp add: y0)
  have c1: "table_row (summary F ! 1) (yoy_change F ! 1) ! 7
       = Td (Fmt2f_percent (Fin (16667 / 100))) (Some ''green'')"
    using cells [OF i1] y1 by (simp add: y1 [unfolded One_nat_def])
  have year1: "s_Year (summary F ! 1) = 2021"
    using nth_map [OF i1, of s_Year] years by simp
  have prices: "map Price (filter (\<lambda>r. Year r = 2021) (frame_rows two_years)) = [30, 50]"
    by (simp add: two_years_def obs_def)
  have "s_Mean (summary F ! 1) =
      Fin (round2_real (sum_list (map Price (filter (\<lambda>r. Year r = 2021) (frame_rows two_years)))
            / real (length (filter (\<lambda>r. Year r = 2021) (frame_rows two_years)))))"
    using row_means [OF i1, THEN conjunct2] unfolding year1 .
  then have mean1: "s_Mean (summary F ! 1) = Fin (round2_real ((30 + 50) / 2))"
    using prices by (simp add: two_years_def obs_def)
  show ?thesis
    using years means mean1 y0 y1 c0 c1 unfolding F_def by (simp only: simp_thms)
qed

end
